theory Spec2Isabelle
  imports Main "HOL-Library.Word"
begin

unbundle bit_operations_syntax

section \<open>Per-thread data of the AppCRT in kernel mode\<close>

text \<open>
  The development embeds \<^verbatim>\<open>per_thread_data.cpp\<close> (the second half of
  \<^verbatim>\<open>src/crt/vcruntime/utility.cpp\<close>): the registry that maps the running thread to
  its \<^verbatim>\<open>__acrt_ptd\<close> block. The registry is three globals, a non-paged lookaside list
  (the block pool), a generic AVL table keyed by the thread id, and a spin lock. Every
  function that touches the table does so between acquiring and releasing the spin lock,
  so one call is one atomic step on the state; concurrent callers are an interleaving of
  such steps. The leading underscores of the C names are dropped.
\<close>

subsection \<open>Data\<close>

type_synonym addr = nat
type_synonym HANDLE = "64 word"

text \<open>
  Modelled from the spec: \<^verbatim>\<open>CLIENT_ID\<close> and the accessors \<^verbatim>\<open>PsGetThreadClientId\<close> and
  \<^verbatim>\<open>PsGetCurrentThreadId\<close> belong to the host. A client id is the two handles that
  name a thread; a thread object (\<^verbatim>\<open>PETHREAD\<close>) is represented by its client id, and
  the id of the current thread is the \<^verbatim>\<open>UniqueThread\<close> handle of its client id.
  \<^verbatim>\<open>size_t\<close> and pointers are 64 bits wide.
\<close>

record CLIENT_ID =
  UniqueProcess :: HANDLE
  UniqueThread :: HANDLE

definition PsGetThreadClientId :: "CLIENT_ID \<Rightarrow> CLIENT_ID" where
  "PsGetThreadClientId thread = thread"

definition PsGetCurrentThreadId :: "CLIENT_ID \<Rightarrow> HANDLE" where
  "PsGetCurrentThreadId thread = UniqueThread thread"

text \<open>
  Modelled from the spec: the declaration of \<^verbatim>\<open>__acrt_ptd\<close> lives in
  \<^verbatim>\<open>corecrt_internal.h\<close>, which is not among the sources. The two owned buffers are the
  fields the free callback reads; every other field of the fixed-layout scratch region
  is the component \<open>scratch\<close> of an arbitrary type whose \<open>0\<close> is the all-zero contents.
  A null pointer is \<open>None\<close>.
\<close>

record 's acrt_ptd =
  strerror_buffer :: "addr option"
  wcserror_buffer :: "addr option"
  scratch :: 's

text \<open>\<^verbatim>\<open>struct __acrt_ptd_km : public __acrt_ptd { void* tid; long long uid; }\<close>\<close>

record 's acrt_ptd_km = "'s acrt_ptd" +
  tid :: HANDLE
  uid :: "64 word"

text \<open>The value-initialised object \<^verbatim>\<open>__acrt_ptd_km ptd{}\<close>.\<close>

definition zero_ptd_km :: "('s::zero) acrt_ptd_km" where
  "zero_ptd_km =
     \<lparr>strerror_buffer = None, wcserror_buffer = None, scratch = 0, tid = 0, uid = 0\<rparr>"

datatype RTL_GENERIC_COMPARE_RESULTS = GenericLessThan | GenericGreaterThan | GenericEqual

text \<open>
  Modelled from the spec: the types \<^verbatim>\<open>NPAGED_LOOKASIDE_LIST\<close> and \<^verbatim>\<open>RTL_AVL_TABLE\<close> of
  the globals \<^verbatim>\<open>__acrt_startup_ptd_pools\<close> and \<^verbatim>\<open>__acrt_startup_ptd_table\<close>, and the two
  resources of the host they draw on, are absent from the sources. The pool is the list
  of blocks it has cached (\<open>startup_ptd_pools\<close>) and a flag telling whether it is
  initialised; behind it \<open>nonpaged_pool\<close> lists the blocks the system can still supply,
  so that an allocation fails exactly when both are empty. The table is the list of its
  elements in the order of the comparison callback, each element the address of its
  block and the user data stored there. \<open>crt_heap\<close> is the set of live \<^verbatim>\<open>malloc\<close>
  buffers.
\<close>

record 's ptd_state =
  nonpaged_pool :: "addr list"
  startup_ptd_pools_live :: bool
  startup_ptd_pools :: "addr list"
  startup_ptd_table :: "(addr \<times> 's acrt_ptd_km) list"
  crt_heap :: "addr set"

subsection \<open>The identity resolver\<close>

definition get_thread_uid :: "CLIENT_ID \<Rightarrow> 64 word" where
  "get_thread_uid thread =
     (let id = PsGetThreadClientId thread;
          high = drop_bit 2 (UniqueProcess id);
          low = drop_bit 2 (UniqueThread id)
      in push_bit 32 (high AND 0xFFFFFFFF) OR (low AND 0xFFFFFFFF))"

subsection \<open>Services of the host\<close>

text \<open>
  Modelled from the spec: the four routines of the lookaside list are the host's. A
  fresh list caches nothing; an allocation takes a cached block if there is one and a
  block of the system otherwise, and returns null when the system has none; a freed
  block is cached; deleting the list gives the cached blocks back to the system.
\<close>

definition ExInitializeNPagedLookasideList :: "'s ptd_state \<Rightarrow> 's ptd_state" where
  "ExInitializeNPagedLookasideList s =
     s\<lparr>startup_ptd_pools_live := True, startup_ptd_pools := []\<rparr>"

definition ExAllocateFromNPagedLookasideList :: "'s ptd_state \<Rightarrow> addr option \<times> 's ptd_state" where
  "ExAllocateFromNPagedLookasideList s =
     (case startup_ptd_pools s of
        b # bs \<Rightarrow> (Some b, s\<lparr>startup_ptd_pools := bs\<rparr>)
      | [] \<Rightarrow>
          (case nonpaged_pool s of
             b # bs \<Rightarrow> (Some b, s\<lparr>nonpaged_pool := bs\<rparr>)
           | [] \<Rightarrow> (None, s)))"

definition ExFreeToNPagedLookasideList :: "addr \<Rightarrow> 's ptd_state \<Rightarrow> 's ptd_state" where
  "ExFreeToNPagedLookasideList buffer s =
     s\<lparr>startup_ptd_pools := buffer # startup_ptd_pools s\<rparr>"

definition ExDeleteNPagedLookasideList :: "'s ptd_state \<Rightarrow> 's ptd_state" where
  "ExDeleteNPagedLookasideList s =
     s\<lparr>nonpaged_pool := startup_ptd_pools s @ nonpaged_pool s,
       startup_ptd_pools_live := False, startup_ptd_pools := []\<rparr>"

text \<open>
  Modelled from the spec: \<^verbatim>\<open>free\<close> of the C heap, which ends the life of a buffer;
  \<^verbatim>\<open>free(nullptr)\<close> does nothing.
\<close>

definition free :: "addr option \<Rightarrow> 's ptd_state \<Rightarrow> 's ptd_state" where
  "free p s = (case p of None \<Rightarrow> s | Some b \<Rightarrow> s\<lparr>crt_heap := crt_heap s - {b}\<rparr>)"

subsection \<open>The callbacks of the table\<close>

definition acrt_ptd_table_compare ::
  "'s acrt_ptd_km \<Rightarrow> 's acrt_ptd_km \<Rightarrow> RTL_GENERIC_COMPARE_RESULTS" where
  "acrt_ptd_table_compare ptd1 ptd2 =
     (if tid ptd1 < tid ptd2 then GenericLessThan
      else if tid ptd1 > tid ptd2 then GenericGreaterThan
      else GenericEqual)"

definition acrt_ptd_table_allocate :: "'s ptd_state \<Rightarrow> addr option \<times> 's ptd_state" where
  "acrt_ptd_table_allocate s = ExAllocateFromNPagedLookasideList s"

text \<open>
  The callback receives the block; the user data it reads lies behind the block's
  \<^verbatim>\<open>RTL_BALANCED_LINKS\<close> header and is passed here with the block's address.
\<close>

definition acrt_ptd_table_free :: "addr \<times> 's acrt_ptd_km \<Rightarrow> 's ptd_state \<Rightarrow> 's ptd_state" where
  "acrt_ptd_table_free elem s =
     (let buffer = fst elem; ptd = snd elem;
          s1 = free (strerror_buffer ptd) s;
          s2 = free (wcserror_buffer ptd) s1
      in ExFreeToNPagedLookasideList buffer s2)"

subsection \<open>The generic table\<close>

text \<open>
  Modelled from the spec: the \<^verbatim>\<open>Rtl...GenericTableAvl\<close> routines are the host's. They
  act on the table initialised with the three callbacks above. The search of the tree
  finds the element that compares equal to the key, insertion links a new element at
  its place in the order of the comparison callback, and the element numbered \<open>0\<close> is
  the first in that order; the balancing of the tree is not represented. Lookup returns
  the element equal to the key or null. Insertion returns the element already in the
  table under the key, or else obtains a block from the allocation callback, copies the
  key into it and links it; it returns null when the callback does. Deletion unlinks the
  element equal to the key and hands it to the free callback. A pointer to an element is
  the address of its block; where the caller goes on to read through the pointer the
  routine returns the element, address and contents.
\<close>

definition RtlInitializeGenericTableAvl :: "'s ptd_state \<Rightarrow> 's ptd_state" where
  "RtlInitializeGenericTableAvl s = s\<lparr>startup_ptd_table := []\<rparr>"

fun avl_find :: "'s acrt_ptd_km \<Rightarrow> (addr \<times> 's acrt_ptd_km) list \<Rightarrow> (addr \<times> 's acrt_ptd_km) option" where
  "avl_find buffer [] = None"
| "avl_find buffer (e # es) =
     (if acrt_ptd_table_compare buffer (snd e) = GenericEqual then Some e
      else avl_find buffer es)"

fun avl_link :: "addr \<times> 's acrt_ptd_km \<Rightarrow> (addr \<times> 's acrt_ptd_km) list \<Rightarrow> (addr \<times> 's acrt_ptd_km) list" where
  "avl_link new [] = [new]"
| "avl_link new (e # es) =
     (if acrt_ptd_table_compare (snd new) (snd e) = GenericLessThan then new # e # es
      else e # avl_link new es)"

fun avl_unlink :: "'s acrt_ptd_km \<Rightarrow> (addr \<times> 's acrt_ptd_km) list \<Rightarrow> (addr \<times> 's acrt_ptd_km) list" where
  "avl_unlink buffer [] = []"
| "avl_unlink buffer (e # es) =
     (if acrt_ptd_table_compare buffer (snd e) = GenericEqual then es
      else e # avl_unlink buffer es)"

definition RtlLookupElementGenericTableAvl ::
  "'s acrt_ptd_km \<Rightarrow> 's ptd_state \<Rightarrow> (addr \<times> 's acrt_ptd_km) option" where
  "RtlLookupElementGenericTableAvl buffer s = avl_find buffer (startup_ptd_table s)"

text \<open>
  The result is the element that now holds the key, the flag \<^verbatim>\<open>NewElement\<close> and the
  state; \<open>None\<close> is the null pointer returned when the allocation callback fails.
\<close>

definition RtlInsertElementGenericTableAvl ::
  "'s acrt_ptd_km \<Rightarrow> 's ptd_state \<Rightarrow> (addr \<times> 's acrt_ptd_km) option \<times> bool \<times> 's ptd_state" where
  "RtlInsertElementGenericTableAvl buffer s =
     (case avl_find buffer (startup_ptd_table s) of
        Some e \<Rightarrow> (Some e, False, s)
      | None \<Rightarrow>
          (case acrt_ptd_table_allocate s of
             (None, s1) \<Rightarrow> (None, False, s1)
           | (Some b, s1) \<Rightarrow>
               (Some (b, buffer), True,
                s1\<lparr>startup_ptd_table := avl_link (b, buffer) (startup_ptd_table s1)\<rparr>)))"

definition RtlDeleteElementGenericTableAvl ::
  "'s acrt_ptd_km \<Rightarrow> 's ptd_state \<Rightarrow> bool \<times> 's ptd_state" where
  "RtlDeleteElementGenericTableAvl buffer s =
     (case avl_find buffer (startup_ptd_table s) of
        None \<Rightarrow> (False, s)
      | Some e \<Rightarrow>
          (True,
           acrt_ptd_table_free e
             (s\<lparr>startup_ptd_table := avl_unlink buffer (startup_ptd_table s)\<rparr>)))"

definition RtlGetElementGenericTableAvl ::
  "nat \<Rightarrow> 's ptd_state \<Rightarrow> (addr \<times> 's acrt_ptd_km) option" where
  "RtlGetElementGenericTableAvl i s =
     (if i < length (startup_ptd_table s) then Some (startup_ptd_table s ! i) else None)"

text \<open>
  \<^verbatim>\<open>RtlSecureZeroMemory(new_ptd, sizeof __acrt_ptd)\<close>: the fill starts at the user data
  of the block and stops at the end of the base object, before \<open>tid\<close> and \<open>uid\<close>; the
  source notes \<^verbatim>\<open>// not reset pid/uid\<close>.
\<close>

definition zero_acrt_ptd :: "('s::zero) acrt_ptd_km \<Rightarrow> 's acrt_ptd_km" where
  "zero_acrt_ptd ptd = ptd\<lparr>strerror_buffer := None, wcserror_buffer := None, scratch := 0\<rparr>"

definition RtlSecureZeroMemory :: "addr \<Rightarrow> ('s::zero) ptd_state \<Rightarrow> 's ptd_state" where
  "RtlSecureZeroMemory new_ptd s =
     s\<lparr>startup_ptd_table :=
         map (\<lambda>e. if fst e = new_ptd then (fst e, zero_acrt_ptd (snd e)) else e)
           (startup_ptd_table s)\<rparr>"

subsection \<open>The registry\<close>

text \<open>
  The functions of the source. The argument \<open>cur\<close> is the thread that makes the call,
  what \<^verbatim>\<open>PsGetCurrentThread\<close> returns to it. A returned pointer is the address of the
  block, \<open>None\<close> the null pointer. The local \<^verbatim>\<open>inserted\<close> of
  \<^verbatim>\<open>store_and_initialize_ptd\<close> is written and never read.
\<close>

definition store_and_initialize_ptd ::
  "CLIENT_ID \<Rightarrow> ('s::zero) acrt_ptd_km \<Rightarrow> 's ptd_state \<Rightarrow> addr option \<times> 's ptd_state" where
  "store_and_initialize_ptd cur ptd s =
     (case RtlInsertElementGenericTableAvl ptd s of
        (None, inserted, s1) \<Rightarrow> (None, s1)
      | (Some new_ptd, inserted, s1) \<Rightarrow>
          (if get_thread_uid cur \<noteq> uid (snd new_ptd)
           then (Some (fst new_ptd), RtlSecureZeroMemory (fst new_ptd) s1)
           else (Some (fst new_ptd), s1)))"

text \<open>The descriptor both lookups build on the stack for the calling thread.\<close>

definition current_ptd :: "CLIENT_ID \<Rightarrow> ('s::zero) acrt_ptd_km" where
  "current_ptd cur = zero_ptd_km\<lparr>tid := PsGetCurrentThreadId cur, uid := get_thread_uid cur\<rparr>"

text \<open>
  The loop of \<^verbatim>\<open>__acrt_uninitialize_ptd\<close>: while the table has an element numbered
  \<open>0\<close>, delete the element that compares equal to it. The function ignores its
  \<^verbatim>\<open>bool\<close> argument, which is left out.
\<close>

function uninitialize_loop :: "'s ptd_state \<Rightarrow> 's ptd_state" where
  "uninitialize_loop s =
     (case RtlGetElementGenericTableAvl 0 s of
        None \<Rightarrow> s
      | Some ptd \<Rightarrow> uninitialize_loop (snd (RtlDeleteElementGenericTableAvl (snd ptd) s)))"
  by pat_completeness auto

termination uninitialize_loop
proof (relation "measure (\<lambda>s. length (startup_ptd_table s))")
  show "wf (measure (\<lambda>s :: 's ptd_state. length (startup_ptd_table s)))"
    by simp
next
  fix s :: "'s ptd_state" and ptd
  assume "RtlGetElementGenericTableAvl 0 s = Some ptd"
  then obtain es where "startup_ptd_table s = ptd # es"
    by (cases "startup_ptd_table s") (auto simp: RtlGetElementGenericTableAvl_def)
  then show "(snd (RtlDeleteElementGenericTableAvl (snd ptd) s), s)
               \<in> measure (\<lambda>s. length (startup_ptd_table s))"
    by (simp add: RtlDeleteElementGenericTableAvl_def acrt_ptd_table_compare_def
          acrt_ptd_table_free_def ExFreeToNPagedLookasideList_def free_def Let_def
        split: option.splits)
qed

declare uninitialize_loop.simps [simp del]

definition acrt_uninitialize_ptd :: "'s ptd_state \<Rightarrow> bool \<times> 's ptd_state" where
  "acrt_uninitialize_ptd s = (True, ExDeleteNPagedLookasideList (uninitialize_loop s))"

definition acrt_initialize_ptd :: "CLIENT_ID \<Rightarrow> ('s::zero) ptd_state \<Rightarrow> bool \<times> 's ptd_state" where
  "acrt_initialize_ptd cur s =
     (let s1 = ExInitializeNPagedLookasideList s;
          s2 = RtlInitializeGenericTableAvl s1;
          ptd = current_ptd cur
      in case store_and_initialize_ptd cur ptd s2 of
           (None, s3) \<Rightarrow> (False, snd (acrt_uninitialize_ptd s3))
         | (Some new_ptd, s3) \<Rightarrow> (True, s3))"

definition acrt_getptd_noexit :: "CLIENT_ID \<Rightarrow> ('s::zero) ptd_state \<Rightarrow> addr option \<times> 's ptd_state" where
  "acrt_getptd_noexit cur s =
     (let ptd = current_ptd cur
      in case RtlLookupElementGenericTableAvl ptd s of
           Some existing_ptd \<Rightarrow> (Some (fst existing_ptd), s)
         | None \<Rightarrow> store_and_initialize_ptd cur ptd s)"

text \<open>\<^verbatim>\<open>abort()\<close> ends the process: the strict lookup then yields no block and no state.\<close>

datatype crt_error = Abort

definition acrt_getptd :: "CLIENT_ID \<Rightarrow> ('s::zero) ptd_state \<Rightarrow> crt_error + addr \<times> 's ptd_state" where
  "acrt_getptd cur s =
     (case acrt_getptd_noexit cur s of
        (None, s1) \<Rightarrow> Inl Abort
      | (Some ptd, s1) \<Rightarrow> Inr (ptd, s1))"

definition acrt_freeptd :: "CLIENT_ID \<Rightarrow> ('s::zero) ptd_state \<Rightarrow> 's ptd_state" where
  "acrt_freeptd cur s = snd (RtlDeleteElementGenericTableAvl (current_ptd cur) s)"

subsection \<open>Callers and reachable states\<close>

text \<open>
  The block a lookup returns is handed to the CRT as an \<^verbatim>\<open>__acrt_ptd*\<close>: its holder
  writes the base object (for instance \<^verbatim>\<open>strerror\<close> allocates the buffer and stores the
  pointer) and cannot name \<open>tid\<close> or \<open>uid\<close>. \<open>owner_write\<close> is such a store through
  the pointer \<open>p\<close>; the buffers it stores are live allocations of the C heap.
\<close>

definition store_acrt_ptd :: "'s acrt_ptd \<Rightarrow> 's acrt_ptd_km \<Rightarrow> 's acrt_ptd_km" where
  "store_acrt_ptd v ptd =
     ptd\<lparr>strerror_buffer := strerror_buffer v, wcserror_buffer := wcserror_buffer v,
         scratch := scratch v\<rparr>"

definition owner_write :: "addr \<Rightarrow> 's acrt_ptd \<Rightarrow> 's ptd_state \<Rightarrow> 's ptd_state" where
  "owner_write p v s =
     s\<lparr>startup_ptd_table :=
         map (\<lambda>e. if fst e = p then (fst e, store_acrt_ptd v (snd e)) else e)
           (startup_ptd_table s),
       crt_heap := crt_heap s \<union> set_option (strerror_buffer v) \<union> set_option (wcserror_buffer v)\<rparr>"

text \<open>
  Before the runtime starts nothing is initialised, and the system holds a stock of
  distinct free blocks. Initialisation happens on a registry that is not initialised,
  the other entry points on one that is.
\<close>

definition boot :: "addr list \<Rightarrow> 's ptd_state" where
  "boot mem =
     \<lparr>nonpaged_pool = mem, startup_ptd_pools_live = False, startup_ptd_pools = [],
      startup_ptd_table = [], crt_heap = {}\<rparr>"

inductive reachable :: "('s::zero) ptd_state \<Rightarrow> bool" where
  boot: "distinct mem \<Longrightarrow> reachable (boot mem)"
| initialize:
    "reachable s \<Longrightarrow> \<not> startup_ptd_pools_live s \<Longrightarrow> reachable (snd (acrt_initialize_ptd cur s))"
| getptd_noexit:
    "reachable s \<Longrightarrow> startup_ptd_pools_live s \<Longrightarrow> reachable (snd (acrt_getptd_noexit cur s))"
| freeptd:
    "reachable s \<Longrightarrow> startup_ptd_pools_live s \<Longrightarrow> reachable (acrt_freeptd cur s)"
| uninitialize:
    "reachable s \<Longrightarrow> startup_ptd_pools_live s \<Longrightarrow> reachable (snd (acrt_uninitialize_ptd s))"
| owner_write:
    "reachable s \<Longrightarrow> reachable (owner_write p v s)"

text \<open>
  The invariant of the registry: the elements of the table are strictly ordered by
  thread id, and no block is at once in the table, cached in the pool or free in the
  system.
\<close>

definition ptd_inv :: "'s ptd_state \<Rightarrow> bool" where
  "ptd_inv s \<longleftrightarrow>
     sorted_wrt (<) (map (\<lambda>e. tid (snd e)) (startup_ptd_table s)) \<and>
     distinct (map fst (startup_ptd_table s) @ startup_ptd_pools s @ nonpaged_pool s)"

text \<open>Lookups by a list of threads, one after the other, with the block each obtains.\<close>

fun getptd_noexit_all :: "CLIENT_ID list \<Rightarrow> ('s::zero) ptd_state \<Rightarrow> addr option list \<times> 's ptd_state" where
  "getptd_noexit_all [] s = ([], s)"
| "getptd_noexit_all (cur # curs) s =
     (case acrt_getptd_noexit cur s of
        (r, s1) \<Rightarrow> (case getptd_noexit_all curs s1 of (rs, s2) \<Rightarrow> (r # rs, s2)))"

text \<open>
  What may happen between two lookups of one thread when nobody releases a block or
  tears the registry down: lookups of any thread and stores by the holders of blocks.
\<close>

datatype 's ptd_call = Getptd_noexit CLIENT_ID | Owner_write addr "'s acrt_ptd"

fun run_call :: "('s::zero) ptd_call \<Rightarrow> 's ptd_state \<Rightarrow> 's ptd_state" where
  "run_call (Getptd_noexit cur) s = snd (acrt_getptd_noexit cur s)"
| "run_call (Owner_write p v) s = owner_write p v s"

fun run_calls :: "('s::zero) ptd_call list \<Rightarrow> 's ptd_state \<Rightarrow> 's ptd_state" where
  "run_calls [] s = s"
| "run_calls (c # cs) s = run_calls cs (run_call c s)"

subsection \<open>Threads and states used as examples\<close>

text \<open>
  Threads \<open>thread_A\<close> and \<open>thread_B\<close> carry the same thread id in different processes,
  as when the host hands the id of a dead thread to a new one; \<open>thread_C\<close> has an id
  of its own.
\<close>

definition thread_A :: CLIENT_ID where
  "thread_A = \<lparr>UniqueProcess = 4, UniqueThread = 8\<rparr>"

definition thread_B :: CLIENT_ID where
  "thread_B = \<lparr>UniqueProcess = 12, UniqueThread = 8\<rparr>"

definition thread_C :: CLIENT_ID where
  "thread_C = \<lparr>UniqueProcess = 4, UniqueThread = 16\<rparr>"

definition used_ptd :: "nat acrt_ptd" where
  "used_ptd = \<lparr>strerror_buffer = Some 500, wcserror_buffer = Some 600, scratch = 7\<rparr>"

text \<open>
  The registry initialised by \<open>thread_A\<close> with two free blocks in the system, and the
  same after \<open>thread_A\<close> has used its block.
\<close>

definition started :: "nat ptd_state" where
  "started = snd (acrt_initialize_ptd thread_A (boot [100, 200]))"

definition in_use :: "nat ptd_state" where
  "in_use = owner_write 100 used_ptd started"

text \<open>
  Further states: \<open>released\<close> is the started registry after \<open>thread_A\<close> has given its
  block back, \<open>exhausted\<close> the registry in use after \<open>thread_C\<close> has taken the last
  free block; \<open>thread_D\<close> is a thread without a block.
\<close>

definition thread_D :: CLIENT_ID where
  "thread_D = \<lparr>UniqueProcess = 4, UniqueThread = 24\<rparr>"

definition released :: "nat ptd_state" where
  "released = acrt_freeptd thread_A started"

definition exhausted :: "nat ptd_state" where
  "exhausted = snd (acrt_getptd_noexit thread_C in_use)"

section \<open>The identity resolver\<close>

lemma bit_get_thread_uid:
  "bit (get_thread_uid thread) n \<longleftrightarrow>
     (if n < 32 then bit (UniqueThread thread) (n + 2)
      else n < 64 \<and> bit (UniqueProcess thread) (n - 30))"
proof -
  have m: "(0xFFFFFFFF :: 64 word) = mask 32" by (simp add: mask_eq_exp_minus_1)
  have a: "\<not> n < 32 \<Longrightarrow> Suc (Suc (n - 32)) = n - 30" by arith
  show ?thesis
    unfolding get_thread_uid_def PsGetThreadClientId_def Let_def m
    by (auto simp: bit_simps a)
qed

text \<open>
  C8. The uniqueness token is a total function of the thread's two identifiers alone:
  each is shifted right by two, and the low 32 bits of what remains of the thread
  identifier fill bits 0 to 31 of the token, those of the process identifier bits 32 to
  63.
\<close>

theorem get_thread_uid_packs:
  "take_bit 32 (get_thread_uid thread) = take_bit 32 (drop_bit 2 (UniqueThread thread)) \<and>
   drop_bit 32 (get_thread_uid thread) = take_bit 32 (drop_bit 2 (UniqueProcess thread))"
proof
  show "take_bit 32 (get_thread_uid thread) = take_bit 32 (drop_bit 2 (UniqueThread thread))"
    by (rule bit_eqI) (auto simp: bit_simps bit_get_thread_uid)
  show "drop_bit 32 (get_thread_uid thread) = take_bit 32 (drop_bit 2 (UniqueProcess thread))"
  proof (rule bit_eqI)
    fix n :: nat
    have "n < 32 \<Longrightarrow> n + 32 - 30 = n + 2" by arith
    then show "bit (drop_bit 32 (get_thread_uid thread)) n
                 = bit (take_bit 32 (drop_bit 2 (UniqueProcess thread))) n"
      by (auto simp: bit_simps bit_get_thread_uid dest: bit_imp_le_length)
  qed
qed

section \<open>The table as an ordered list\<close>

lemma compare_Equal_iff [simp]:
  "acrt_ptd_table_compare p q = GenericEqual \<longleftrightarrow> tid p = tid q"
  by (auto simp: acrt_ptd_table_compare_def)

lemma compare_LessThan_iff [simp]:
  "acrt_ptd_table_compare p q = GenericLessThan \<longleftrightarrow> tid p < tid q"
  by (auto simp: acrt_ptd_table_compare_def)

lemma avl_find_SomeD:
  "avl_find b es = Some e \<Longrightarrow> e \<in> set es \<and> tid (snd e) = tid b"
  by (induction es) (auto split: if_splits)

lemma avl_find_None_iff:
  "avl_find b es = None \<longleftrightarrow> tid b \<notin> (\<lambda>e. tid (snd e)) ` set es"
  by (induction es) auto

lemma avl_find_cong_tid: "tid b = tid c \<Longrightarrow> avl_find b es = avl_find c es"
  by (induction es) auto

lemma avl_find_link_other:
  "tid b \<noteq> tid (snd new) \<Longrightarrow> avl_find b (avl_link new es) = avl_find b es"
  by (induction es) auto

lemma avl_find_link_same:
  "avl_find b es = None \<Longrightarrow> tid b = tid (snd new) \<Longrightarrow> avl_find b (avl_link new es) = Some new"
  by (induction es) auto

lemma set_avl_link [simp]: "set (avl_link new es) = insert new (set es)"
  by (induction es) auto

lemma length_avl_link [simp]: "length (avl_link new es) = Suc (length es)"
  by (induction es) auto

lemma distinct_fst_avl_link:
  "distinct (map fst (avl_link new es)) \<longleftrightarrow> fst new \<notin> fst ` set es \<and> distinct (map fst es)"
  by (induction es) auto

lemma sorted_avl_link:
  "sorted_wrt (<) (map (\<lambda>e. tid (snd e)) es) \<Longrightarrow> avl_find (snd new) es = None \<Longrightarrow>
   sorted_wrt (<) (map (\<lambda>e. tid (snd e)) (avl_link new es))"
  by (induction es) (auto split: if_splits)

lemma set_avl_unlink_subset: "set (avl_unlink b es) \<subseteq> set es"
  by (induction es) auto

lemma sorted_avl_unlink:
  "sorted_wrt (<) (map (\<lambda>e. tid (snd e)) es) \<Longrightarrow>
   sorted_wrt (<) (map (\<lambda>e. tid (snd e)) (avl_unlink b es))"
proof (induction es)
  case Nil
  then show ?case by simp
next
  case (Cons e es)
  have "set (avl_unlink b es) \<subseteq> set es"
    by (rule set_avl_unlink_subset)
  with Cons show ?case by auto
qed

lemma avl_unlink_absent: "avl_find b es = None \<Longrightarrow> avl_unlink b es = es"
  by (induction es) (auto split: if_splits)

lemma avl_unlink_remove1: "avl_find b es = Some e \<Longrightarrow> avl_unlink b es = remove1 e es"
  by (induction es) (auto split: if_splits dest: avl_find_SomeD)

lemma length_avl_unlink:
  "avl_find b es = Some e \<Longrightarrow> Suc (length (avl_unlink b es)) = length es"
  by (induction es) (auto split: if_splits)

lemma avl_find_unlink_sorted:
  "sorted_wrt (<) (map (\<lambda>e. tid (snd e)) es) \<Longrightarrow> avl_find b (avl_unlink b es) = None"
  by (induction es) (auto simp: avl_find_None_iff)

lemma avl_find_unlink_other:
  "tid c \<noteq> tid b \<Longrightarrow> avl_find c (avl_unlink b es) = avl_find c es"
  by (induction es) auto

section \<open>The operations, case by case\<close>

lemma current_ptd_simps [simp]:
  "tid (current_ptd cur :: ('s::zero) acrt_ptd_km) = UniqueThread cur"
  "uid (current_ptd cur :: ('s::zero) acrt_ptd_km) = get_thread_uid cur"
  "strerror_buffer (current_ptd cur :: ('s::zero) acrt_ptd_km) = None"
  "wcserror_buffer (current_ptd cur :: ('s::zero) acrt_ptd_km) = None"
  "scratch (current_ptd cur :: ('s::zero) acrt_ptd_km) = 0"
  by (simp_all add: current_ptd_def zero_ptd_km_def PsGetCurrentThreadId_def)

lemma allocate_cases:
  "acrt_ptd_table_allocate s =
     (case startup_ptd_pools s of
        b # bs \<Rightarrow> (Some b, s\<lparr>startup_ptd_pools := bs\<rparr>)
      | [] \<Rightarrow> (case nonpaged_pool s of
                b # bs \<Rightarrow> (Some b, s\<lparr>nonpaged_pool := bs\<rparr>)
              | [] \<Rightarrow> (None, s)))"
  by (simp add: acrt_ptd_table_allocate_def ExAllocateFromNPagedLookasideList_def)

lemma allocate_None_iff:
  "fst (acrt_ptd_table_allocate s) = None \<longleftrightarrow> startup_ptd_pools s = [] \<and> nonpaged_pool s = []"
  by (simp add: allocate_cases split: list.splits)

lemma allocate_None_state: "fst (acrt_ptd_table_allocate s) = None \<Longrightarrow> snd (acrt_ptd_table_allocate s) = s"
  by (simp add: allocate_cases split: list.splits)

lemma allocate_table [simp]:
  "startup_ptd_table (snd (acrt_ptd_table_allocate s)) = startup_ptd_table s"
  by (simp add: allocate_cases split: list.splits)

lemma store_miss:
  assumes "avl_find ptd (startup_ptd_table s) = None" and "uid ptd = get_thread_uid cur"
  shows "store_and_initialize_ptd cur ptd s =
           (case acrt_ptd_table_allocate s of
              (None, s1) \<Rightarrow> (None, s1)
            | (Some b, s1) \<Rightarrow>
                (Some b, s1\<lparr>startup_ptd_table := avl_link (b, ptd) (startup_ptd_table s)\<rparr>))"
proof (cases "acrt_ptd_table_allocate s")
  case (Pair r s1)
  have "startup_ptd_table s1 = startup_ptd_table s"
    using allocate_table [of s] Pair by simp
  with Pair assms show ?thesis
    by (simp add: store_and_initialize_ptd_def RtlInsertElementGenericTableAvl_def
          split: option.splits)
qed

lemma store_hit:
  assumes "avl_find ptd (startup_ptd_table s) = Some e"
  shows "store_and_initialize_ptd cur ptd s =
           (if get_thread_uid cur \<noteq> uid (snd e)
            then (Some (fst e), RtlSecureZeroMemory (fst e) s)
            else (Some (fst e), s))"
  using assms
  by (simp add: store_and_initialize_ptd_def RtlInsertElementGenericTableAvl_def)

lemma getptd_noexit_hit:
  "avl_find (current_ptd cur) (startup_ptd_table s) = Some e \<Longrightarrow>
   acrt_getptd_noexit cur s = (Some (fst e), s)"
  by (simp add: acrt_getptd_noexit_def RtlLookupElementGenericTableAvl_def)

lemma getptd_noexit_miss:
  "avl_find (current_ptd cur) (startup_ptd_table s) = None \<Longrightarrow>
   acrt_getptd_noexit cur s =
     (case acrt_ptd_table_allocate s of
        (None, s1) \<Rightarrow> (None, s1)
      | (Some b, s1) \<Rightarrow>
          (Some b, s1\<lparr>startup_ptd_table := avl_link (b, current_ptd cur) (startup_ptd_table s)\<rparr>))"
  by (simp add: acrt_getptd_noexit_def RtlLookupElementGenericTableAvl_def store_miss)

lemma freeptd_absent:
  "avl_find (current_ptd cur) (startup_ptd_table s) = None \<Longrightarrow> acrt_freeptd cur s = s"
  by (simp add: acrt_freeptd_def RtlDeleteElementGenericTableAvl_def)

lemma freeptd_present:
  "avl_find (current_ptd cur) (startup_ptd_table s) = Some e \<Longrightarrow>
   acrt_freeptd cur s =
     s\<lparr>startup_ptd_table := remove1 e (startup_ptd_table s),
       crt_heap := crt_heap s - set_option (strerror_buffer (snd e))
                     - set_option (wcserror_buffer (snd e)),
       startup_ptd_pools := fst e # startup_ptd_pools s\<rparr>"
  by (cases "strerror_buffer (snd e)"; cases "wcserror_buffer (snd e)")
     (simp_all add: acrt_freeptd_def RtlDeleteElementGenericTableAvl_def avl_unlink_remove1
        acrt_ptd_table_free_def free_def ExFreeToNPagedLookasideList_def Let_def)

section \<open>Teardown\<close>

lemma table_free_eq:
  "acrt_ptd_table_free e s =
     s\<lparr>crt_heap := crt_heap s - set_option (strerror_buffer (snd e))
                     - set_option (wcserror_buffer (snd e)),
       startup_ptd_pools := fst e # startup_ptd_pools s\<rparr>"
  by (cases "strerror_buffer (snd e)"; cases "wcserror_buffer (snd e)")
     (simp_all add: acrt_ptd_table_free_def free_def ExFreeToNPagedLookasideList_def Let_def)

lemma delete_front:
  assumes "startup_ptd_table s = e # es"
  shows "RtlDeleteElementGenericTableAvl (snd e) s
           = (True, acrt_ptd_table_free e (s\<lparr>startup_ptd_table := es\<rparr>))"
  using assms by (simp add: RtlDeleteElementGenericTableAvl_def)

lemma uninitialize_loop_fold_aux:
  "startup_ptd_table s = es \<Longrightarrow>
   uninitialize_loop s = fold acrt_ptd_table_free es (s\<lparr>startup_ptd_table := []\<rparr>)"
proof (induction es arbitrary: s)
  case Nil
  then show ?case
    by (subst uninitialize_loop.simps) (simp add: RtlGetElementGenericTableAvl_def)
next
  case (Cons e es)
  let ?s1 = "acrt_ptd_table_free e (s\<lparr>startup_ptd_table := es\<rparr>)"
  have get: "RtlGetElementGenericTableAvl 0 s = Some e"
    using Cons.prems by (simp add: RtlGetElementGenericTableAvl_def)
  have "uninitialize_loop s = uninitialize_loop ?s1"
    by (subst uninitialize_loop.simps) (simp add: get delete_front [OF Cons.prems])
  also have "\<dots> = fold acrt_ptd_table_free es (?s1\<lparr>startup_ptd_table := []\<rparr>)"
    by (rule Cons.IH) (simp add: table_free_eq)
  also have "?s1\<lparr>startup_ptd_table := []\<rparr> = acrt_ptd_table_free e (s\<lparr>startup_ptd_table := []\<rparr>)"
    by (simp add: table_free_eq)
  finally show ?case by simp
qed

lemma uninitialize_loop_fold:
  "uninitialize_loop s
     = fold acrt_ptd_table_free (startup_ptd_table s) (s\<lparr>startup_ptd_table := []\<rparr>)"
  by (rule uninitialize_loop_fold_aux) simp

lemma fold_table_free:
  "fold acrt_ptd_table_free es s =
     s\<lparr>crt_heap := crt_heap s
          - (\<Union>e\<in>set es. set_option (strerror_buffer (snd e)) \<union> set_option (wcserror_buffer (snd e))),
       startup_ptd_pools := rev (map fst es) @ startup_ptd_pools s\<rparr>"
proof (induction es arbitrary: s)
  case Nil
  then show ?case by simp
next
  case (Cons e es)
  let ?own = "\<lambda>es. \<Union>e\<in>set es. set_option (strerror_buffer (snd e)) \<union> set_option (wcserror_buffer (snd e))"
  let ?s1 = "acrt_ptd_table_free e s"
  have heap: "crt_heap s - set_option (strerror_buffer (snd e)) - set_option (wcserror_buffer (snd e))
          - ?own es = crt_heap s - ?own (e # es)"
    by auto
  have "fold acrt_ptd_table_free (e # es) s = fold acrt_ptd_table_free es ?s1"
    by simp
  also have "\<dots> = ?s1\<lparr>crt_heap := crt_heap ?s1 - ?own es,
                          startup_ptd_pools := rev (map fst es) @ startup_ptd_pools ?s1\<rparr>"
    by (rule Cons.IH)
  also have "\<dots> = s\<lparr>crt_heap := crt_heap s - ?own (e # es),
                        startup_ptd_pools := rev (map fst (e # es)) @ startup_ptd_pools s\<rparr>"
    unfolding table_free_eq using heap by simp
  finally show ?case .
qed

lemma uninitialize_eq:
  "acrt_uninitialize_ptd s =
     (True,
      \<lparr>nonpaged_pool = rev (map fst (startup_ptd_table s)) @ startup_ptd_pools s @ nonpaged_pool s,
       startup_ptd_pools_live = False, startup_ptd_pools = [], startup_ptd_table = [],
       crt_heap = crt_heap s
          - (\<Union>e\<in>set (startup_ptd_table s).
               set_option (strerror_buffer (snd e)) \<union> set_option (wcserror_buffer (snd e)))\<rparr>)"
  by (simp add: acrt_uninitialize_ptd_def uninitialize_loop_fold fold_table_free
        ExDeleteNPagedLookasideList_def)

lemma initialize_eq:
  "acrt_initialize_ptd cur s =
     (case nonpaged_pool s of
        [] \<Rightarrow> (False, s\<lparr>startup_ptd_pools_live := False, startup_ptd_pools := [],
                        startup_ptd_table := []\<rparr>)
      | b # bs \<Rightarrow> (True, s\<lparr>nonpaged_pool := bs, startup_ptd_pools_live := True,
                          startup_ptd_pools := [],
                          startup_ptd_table := [(b, current_ptd cur)]\<rparr>))"
  by (simp add: acrt_initialize_ptd_def Let_def ExInitializeNPagedLookasideList_def
        RtlInitializeGenericTableAvl_def store_miss allocate_cases uninitialize_eq
      split: list.splits)

section \<open>The invariant of the registry\<close>

lemma getptd_noexit_cases:
  obtains (hit) e where "avl_find (current_ptd cur) (startup_ptd_table s) = Some e"
      and "acrt_getptd_noexit cur s = (Some (fst e), s)"
  | (exhausted) "avl_find (current_ptd cur) (startup_ptd_table s) = None"
      and "startup_ptd_pools s = []" and "nonpaged_pool s = []"
      and "acrt_getptd_noexit cur s = (None, s)"
  | (cached) b bs where "avl_find (current_ptd cur) (startup_ptd_table s) = None"
      and "startup_ptd_pools s = b # bs"
      and "acrt_getptd_noexit cur s =
             (Some b, s\<lparr>startup_ptd_pools := bs,
                        startup_ptd_table := avl_link (b, current_ptd cur) (startup_ptd_table s)\<rparr>)"
  | (fresh) b bs where "avl_find (current_ptd cur) (startup_ptd_table s) = None"
      and "startup_ptd_pools s = []" and "nonpaged_pool s = b # bs"
      and "acrt_getptd_noexit cur s =
             (Some b, s\<lparr>nonpaged_pool := bs,
                        startup_ptd_table := avl_link (b, current_ptd cur) (startup_ptd_table s)\<rparr>)"
proof (cases "avl_find (current_ptd cur) (startup_ptd_table s)")
  case (Some e)
  then show ?thesis using hit getptd_noexit_hit by blast
next
  case None
  show ?thesis
  proof (cases "startup_ptd_pools s")
    case (Cons b bs)
    then show ?thesis
      using None cached [of b bs] by (simp add: getptd_noexit_miss allocate_cases)
  next
    case Nil
    show ?thesis
    proof (cases "nonpaged_pool s")
      case Nil': Nil
      then show ?thesis
        using None Nil exhausted by (simp add: getptd_noexit_miss allocate_cases)
    next
      case (Cons b bs)
      then show ?thesis
        using None Nil fresh [of b bs] by (simp add: getptd_noexit_miss allocate_cases)
    qed
  qed
qed

lemma distinct_fst_remove1:
  "e \<in> set es \<Longrightarrow> distinct (map fst es @ rest) \<Longrightarrow>
   distinct (map fst (remove1 e es) @ fst e # rest)"
proof (induction es)
  case Nil
  then show ?case by simp
next
  case (Cons x xs)
  have "set (remove1 e xs) \<subseteq> set xs" by (rule set_remove1_subset)
  with Cons show ?case by (auto simp: image_iff)
qed

lemma sorted_remove1_tid:
  "sorted_wrt (<) (map (\<lambda>e. tid (snd e)) es) \<Longrightarrow>
   sorted_wrt (<) (map (\<lambda>e. tid (snd e)) (remove1 x es))"
proof (induction es)
  case Nil
  then show ?case by simp
next
  case (Cons e es)
  have "set (remove1 x es) \<subseteq> set es" by (rule set_remove1_subset)
  with Cons show ?case by auto
qed

lemma ptd_inv_boot: "distinct mem \<Longrightarrow> ptd_inv (boot mem)"
  by (simp add: ptd_inv_def boot_def)

lemma ptd_inv_initialize: "ptd_inv s \<Longrightarrow> ptd_inv (snd (acrt_initialize_ptd cur s))"
  by (auto simp: ptd_inv_def initialize_eq split: list.splits)

lemma ptd_inv_getptd_noexit:
  assumes "ptd_inv s"
  shows "ptd_inv (snd (acrt_getptd_noexit cur s))"
proof (cases cur s rule: getptd_noexit_cases)
  case (hit e)
  with assms show ?thesis by simp
next
  case exhausted
  with assms show ?thesis by simp
next
  case (cached b bs)
  with assms show ?thesis
    by (auto simp: ptd_inv_def distinct_fst_avl_link sorted_avl_link)
next
  case (fresh b bs)
  with assms show ?thesis
    by (auto simp: ptd_inv_def distinct_fst_avl_link sorted_avl_link)
qed

lemma ptd_inv_freeptd:
  assumes "ptd_inv s"
  shows "ptd_inv (acrt_freeptd cur s)"
proof (cases "avl_find (current_ptd cur) (startup_ptd_table s)")
  case None
  with assms show ?thesis by (simp add: freeptd_absent)
next
  case (Some e)
  then have mem: "e \<in> set (startup_ptd_table s)"
    by (simp add: avl_find_SomeD)
  from assms have "distinct (map fst (startup_ptd_table s) @ (startup_ptd_pools s @ nonpaged_pool s))"
    by (simp add: ptd_inv_def)
  with mem have "distinct (map fst (remove1 e (startup_ptd_table s))
                    @ fst e # (startup_ptd_pools s @ nonpaged_pool s))"
    by (rule distinct_fst_remove1)
  moreover from assms have "sorted_wrt (<) (map (\<lambda>e. tid (snd e)) (remove1 e (startup_ptd_table s)))"
    by (simp add: ptd_inv_def sorted_remove1_tid)
  ultimately show ?thesis
    by (simp add: ptd_inv_def freeptd_present [OF Some])
qed

lemma ptd_inv_uninitialize: "ptd_inv s \<Longrightarrow> ptd_inv (snd (acrt_uninitialize_ptd s))"
  by (auto simp: ptd_inv_def uninitialize_eq)

lemma ptd_inv_owner_write: "ptd_inv s \<Longrightarrow> ptd_inv (owner_write p v s)"
proof -
  have "map (\<lambda>e. tid (snd e)) (map (\<lambda>e. if fst e = p then (fst e, store_acrt_ptd v (snd e)) else e) es)
          = map (\<lambda>e. tid (snd e)) es" for es :: "(addr \<times> 'a acrt_ptd_km) list"
    by (induction es) (auto simp: store_acrt_ptd_def)
  moreover have "map fst (map (\<lambda>e. if fst e = p then (fst e, store_acrt_ptd v (snd e)) else e) es)
          = map fst es" for es :: "(addr \<times> 'a acrt_ptd_km) list"
    by (induction es) auto
  ultimately show "ptd_inv s \<Longrightarrow> ptd_inv (owner_write p v s)"
    by (simp add: ptd_inv_def owner_write_def del: map_map)
qed

lemma reachable_ptd_inv: "reachable s \<Longrightarrow> ptd_inv s"
  by (induction rule: reachable.induct)
     (simp_all add: ptd_inv_boot ptd_inv_initialize ptd_inv_getptd_noexit ptd_inv_freeptd
        ptd_inv_uninitialize ptd_inv_owner_write)

section \<open>The example states, evaluated\<close>

lemma started_eq:
  "started =
     \<lparr>nonpaged_pool = [200], startup_ptd_pools_live = True, startup_ptd_pools = [],
      startup_ptd_table =
        [(100, \<lparr>strerror_buffer = None, wcserror_buffer = None, scratch = 0, tid = 8,
                 uid = 0x100000002\<rparr>)],
      crt_heap = {}\<rparr>"
  by code_simp

lemma in_use_eq:
  "in_use =
     \<lparr>nonpaged_pool = [200], startup_ptd_pools_live = True, startup_ptd_pools = [],
      startup_ptd_table =
        [(100, \<lparr>strerror_buffer = Some 500, wcserror_buffer = Some 600, scratch = 7, tid = 8,
                 uid = 0x100000002\<rparr>)],
      crt_heap = {500, 600}\<rparr>"
  by code_simp

lemma released_eq:
  "released =
     \<lparr>nonpaged_pool = [200], startup_ptd_pools_live = True, startup_ptd_pools = [100],
      startup_ptd_table = [], crt_heap = {}\<rparr>"
  by code_simp

lemma exhausted_eq:
  "exhausted =
     \<lparr>nonpaged_pool = [], startup_ptd_pools_live = True, startup_ptd_pools = [],
      startup_ptd_table =
        [(100, \<lparr>strerror_buffer = Some 500, wcserror_buffer = Some 600, scratch = 7, tid = 8,
                 uid = 0x100000002\<rparr>),
         (200, \<lparr>strerror_buffer = None, wcserror_buffer = None, scratch = 0, tid = 16,
                 uid = 0x100000004\<rparr>)],
      crt_heap = {500, 600}\<rparr>"
  by code_simp

lemma reachable_started: "reachable started"
  unfolding started_def by (rule reachable.initialize [OF reachable.boot]) (simp_all add: boot_def)

lemma reachable_in_use: "reachable in_use"
  unfolding in_use_def by (rule reachable.owner_write [OF reachable_started])

lemma reachable_released: "reachable released"
  unfolding released_def
  by (rule reachable.freeptd [OF reachable_started]) (simp add: started_eq)

lemma reachable_exhausted: "reachable exhausted"
  unfolding exhausted_def
  by (rule reachable.getptd_noexit [OF reachable_in_use]) (simp add: in_use_eq)

section \<open>Absence and abnormal termination\<close>

text \<open>
  C2. The soft lookup returns no block exactly when the thread has no element and
  the pool can supply none, and then leaves the registry as it was; the strict lookup
  aborts exactly when the soft one returns no block and otherwise returns the block and
  the state of the soft one.
\<close>

theorem getptd_absent_or_abort:
  "(fst (acrt_getptd_noexit cur s) = None \<longleftrightarrow>
      RtlLookupElementGenericTableAvl (current_ptd cur) s = None \<and>
      startup_ptd_pools s = [] \<and> nonpaged_pool s = []) \<and>
   (fst (acrt_getptd_noexit cur s) = None \<longrightarrow> snd (acrt_getptd_noexit cur s) = s) \<and>
   (acrt_getptd cur s = Inl Abort \<longleftrightarrow> fst (acrt_getptd_noexit cur s) = None) \<and>
   (\<forall>ptd s1. acrt_getptd_noexit cur s = (Some ptd, s1) \<longrightarrow> acrt_getptd cur s = Inr (ptd, s1))"
proof -
  have "(fst (acrt_getptd_noexit cur s) = None \<longleftrightarrow>
          RtlLookupElementGenericTableAvl (current_ptd cur) s = None \<and>
          startup_ptd_pools s = [] \<and> nonpaged_pool s = []) \<and>
        (fst (acrt_getptd_noexit cur s) = None \<longrightarrow> snd (acrt_getptd_noexit cur s) = s)"
    by (cases cur s rule: getptd_noexit_cases)
       (simp_all add: RtlLookupElementGenericTableAvl_def)
  moreover have "acrt_getptd cur s = Inl Abort \<longleftrightarrow> fst (acrt_getptd_noexit cur s) = None"
    by (cases "acrt_getptd_noexit cur s") (simp add: acrt_getptd_def split: option.splits)
  moreover have "\<forall>ptd s1. acrt_getptd_noexit cur s = (Some ptd, s1) \<longrightarrow> acrt_getptd cur s = Inr (ptd, s1)"
    by (simp add: acrt_getptd_def)
  ultimately show ?thesis by blast
qed

theorem getptd_absent_or_abort_witness:
  "fst (acrt_getptd_noexit thread_D exhausted) = None \<and>
   snd (acrt_getptd_noexit thread_D exhausted) = exhausted \<and>
   acrt_getptd thread_D exhausted = Inl Abort \<and>
   acrt_getptd_noexit thread_C exhausted = (Some 200, exhausted) \<and>
   acrt_getptd thread_C exhausted = Inr (200, exhausted)"
proof -
  have miss: "RtlLookupElementGenericTableAvl (current_ptd thread_D) exhausted = None"
    by (simp add: RtlLookupElementGenericTableAvl_def exhausted_eq thread_D_def)
  have empty: "startup_ptd_pools exhausted = [] \<and> nonpaged_pool exhausted = []"
    by (simp add: exhausted_eq)
  have hit: "acrt_getptd_noexit thread_C exhausted = (Some 200, exhausted)"
    by (simp add: getptd_noexit_hit [where e = "(200, \<lparr>strerror_buffer = None, wcserror_buffer = None, scratch = 0, tid = 16,
                 uid = 0x100000004\<rparr>)"] exhausted_eq thread_C_def)
  from getptd_absent_or_abort [of thread_D exhausted] getptd_absent_or_abort [of thread_C exhausted]
    miss empty hit
  show ?thesis by simp
qed

section \<open>Initialisation and teardown\<close>

text \<open>
  C3. Initialisation fails exactly when the system has no block for the bootstrap
  insert. It then returns false from a registry that is torn down again: the table is
  empty, the pool is deleted and holds nothing, no block has been taken from the system
  and the heap is untouched. When it succeeds the pool is live and the table holds one
  element, the zeroed descriptor of the initialising thread, which a lookup by that
  thread finds.
\<close>

theorem initialize_ptd_all_or_nothing:
  "(fst (acrt_initialize_ptd cur s) \<longleftrightarrow> nonpaged_pool s \<noteq> []) \<and>
   (\<not> fst (acrt_initialize_ptd cur s) \<longrightarrow>
      snd (acrt_initialize_ptd cur s) =
        snd (acrt_uninitialize_ptd
               (RtlInitializeGenericTableAvl (ExInitializeNPagedLookasideList s))) \<and>
      snd (acrt_initialize_ptd cur s) =
        s\<lparr>startup_ptd_pools_live := False, startup_ptd_pools := [], startup_ptd_table := []\<rparr>) \<and>
   (fst (acrt_initialize_ptd cur s) \<longrightarrow>
      startup_ptd_pools_live (snd (acrt_initialize_ptd cur s)) \<and>
      startup_ptd_table (snd (acrt_initialize_ptd cur s))
        = [(hd (nonpaged_pool s), current_ptd cur)] \<and>
      nonpaged_pool (snd (acrt_initialize_ptd cur s)) = tl (nonpaged_pool s) \<and>
      RtlLookupElementGenericTableAvl (current_ptd cur) (snd (acrt_initialize_ptd cur s))
        = Some (hd (nonpaged_pool s), current_ptd cur))"
  by (cases "nonpaged_pool s")
     (simp_all add: initialize_eq uninitialize_eq RtlLookupElementGenericTableAvl_def
        RtlInitializeGenericTableAvl_def ExInitializeNPagedLookasideList_def)

theorem initialize_ptd_all_or_nothing_witness:
  "\<not> fst (acrt_initialize_ptd thread_A (boot [] :: nat ptd_state)) \<and>
   snd (acrt_initialize_ptd thread_A (boot [] :: nat ptd_state)) = boot [] \<and>
   fst (acrt_initialize_ptd thread_A (boot [100, 200] :: nat ptd_state)) \<and>
   RtlLookupElementGenericTableAvl (current_ptd thread_A)
       (snd (acrt_initialize_ptd thread_A (boot [100, 200] :: nat ptd_state)))
     = Some (100, current_ptd thread_A)"
proof -
  note none = initialize_ptd_all_or_nothing [of thread_A "boot [] :: nat ptd_state"]
  note some = initialize_ptd_all_or_nothing [of thread_A "boot [100, 200] :: nat ptd_state"]
  have fails: "\<not> fst (acrt_initialize_ptd thread_A (boot [] :: nat ptd_state))"
    using none by (simp add: boot_def)
  with none have "snd (acrt_initialize_ptd thread_A (boot [] :: nat ptd_state)) =
      (boot [])\<lparr>startup_ptd_pools_live := False, startup_ptd_pools := [],
                startup_ptd_table := []\<rparr>"
    by blast
  then have torn_down: "snd (acrt_initialize_ptd thread_A (boot [] :: nat ptd_state)) = boot []"
    by (simp add: boot_def)
  have succeeds: "fst (acrt_initialize_ptd thread_A (boot [100, 200] :: nat ptd_state))"
    using some by (simp add: boot_def)
  with some have "RtlLookupElementGenericTableAvl (current_ptd thread_A)
       (snd (acrt_initialize_ptd thread_A (boot [100, 200] :: nat ptd_state)))
     = Some (hd (nonpaged_pool (boot [100, 200] :: nat ptd_state)), current_ptd thread_A)"
    by blast
  then have "RtlLookupElementGenericTableAvl (current_ptd thread_A)
       (snd (acrt_initialize_ptd thread_A (boot [100, 200] :: nat ptd_state)))
     = Some (100, current_ptd thread_A)"
    by (simp add: boot_def)
  with fails torn_down succeeds show ?thesis by blast
qed

text \<open>
  C4. Teardown always returns, and returns true. Its loop takes the front element of
  the table, unlinks it and passes it to the free callback, until the table is empty;
  on an empty table it does nothing. The result is the pool deleted after the free
  callback has been applied to every element of the table in order: the table is empty,
  every buffer owned by an element is off the heap, and every block, from the table or
  cached in the pool, is back in the system. On an empty table that is the deletion of
  the pool alone.
\<close>

theorem uninitialize_ptd_drains:
  "acrt_uninitialize_ptd s =
     (True, ExDeleteNPagedLookasideList
              (fold acrt_ptd_table_free (startup_ptd_table s) (s\<lparr>startup_ptd_table := []\<rparr>))) \<and>
   snd (acrt_uninitialize_ptd s) =
     \<lparr>nonpaged_pool = rev (map fst (startup_ptd_table s)) @ startup_ptd_pools s @ nonpaged_pool s,
      startup_ptd_pools_live = False, startup_ptd_pools = [], startup_ptd_table = [],
      crt_heap = crt_heap s
        - (\<Union>e\<in>set (startup_ptd_table s).
             set_option (strerror_buffer (snd e)) \<union> set_option (wcserror_buffer (snd e)))\<rparr> \<and>
   (\<forall>e es. startup_ptd_table s = e # es \<longrightarrow>
      uninitialize_loop s = uninitialize_loop (acrt_ptd_table_free e (s\<lparr>startup_ptd_table := es\<rparr>))) \<and>
   (startup_ptd_table s = [] \<longrightarrow>
      uninitialize_loop s = s \<and>
      acrt_uninitialize_ptd s =
        (True, s\<lparr>nonpaged_pool := startup_ptd_pools s @ nonpaged_pool s,
                 startup_ptd_pools_live := False, startup_ptd_pools := []\<rparr>))"
proof -
  have "acrt_uninitialize_ptd s =
     (True, ExDeleteNPagedLookasideList
              (fold acrt_ptd_table_free (startup_ptd_table s) (s\<lparr>startup_ptd_table := []\<rparr>)))"
    by (simp add: acrt_uninitialize_ptd_def uninitialize_loop_fold)
  moreover have "\<forall>e es. startup_ptd_table s = e # es \<longrightarrow>
      uninitialize_loop s = uninitialize_loop (acrt_ptd_table_free e (s\<lparr>startup_ptd_table := es\<rparr>))"
    by (subst uninitialize_loop.simps)
       (auto simp: RtlGetElementGenericTableAvl_def delete_front)
  moreover have "startup_ptd_table s = [] \<longrightarrow>
      uninitialize_loop s = s \<and>
      acrt_uninitialize_ptd s =
        (True, s\<lparr>nonpaged_pool := startup_ptd_pools s @ nonpaged_pool s,
                 startup_ptd_pools_live := False, startup_ptd_pools := []\<rparr>)"
    by (simp add: uninitialize_eq uninitialize_loop_fold)
  ultimately show ?thesis
    by (simp add: uninitialize_eq)
qed

theorem uninitialize_ptd_drains_witness:
  "acrt_uninitialize_ptd exhausted = (True, boot [200, 100]) \<and>
   acrt_uninitialize_ptd released = (True, boot [100, 200]) \<and>
   uninitialize_loop released = released"
proof -
  note full = uninitialize_ptd_drains [of exhausted]
  note empty = uninitialize_ptd_drains [of released]
  have "fst (acrt_uninitialize_ptd exhausted) = True"
    using full by simp
  moreover from full have "snd (acrt_uninitialize_ptd exhausted) =
     \<lparr>nonpaged_pool = rev (map fst (startup_ptd_table exhausted)) @ startup_ptd_pools exhausted
                        @ nonpaged_pool exhausted,
      startup_ptd_pools_live = False, startup_ptd_pools = [], startup_ptd_table = [],
      crt_heap = crt_heap exhausted
        - (\<Union>e\<in>set (startup_ptd_table exhausted).
             set_option (strerror_buffer (snd e)) \<union> set_option (wcserror_buffer (snd e)))\<rparr>"
    by blast
  then have "snd (acrt_uninitialize_ptd exhausted) = boot [200, 100]"
    by (simp add: exhausted_eq boot_def)
  ultimately have drained: "acrt_uninitialize_ptd exhausted = (True, boot [200, 100])"
    by (simp add: prod_eq_iff)
  have no_elements: "startup_ptd_table released = []"
    by (simp add: released_eq)
  with empty have "uninitialize_loop released = released \<and>
      acrt_uninitialize_ptd released =
        (True, released\<lparr>nonpaged_pool := startup_ptd_pools released @ nonpaged_pool released,
                 startup_ptd_pools_live := False, startup_ptd_pools := []\<rparr>)"
    by blast
  then have "uninitialize_loop released = released \<and>
      acrt_uninitialize_ptd released = (True, boot [100, 200])"
    by (simp add: released_eq boot_def)
  with drained show ?thesis by blast
qed

section \<open>A thread id that comes back under another token\<close>

lemma avl_find_map:
  assumes "\<And>x. tid (snd (g x)) = tid (snd x)"
  shows "avl_find b (map g es) = map_option g (avl_find b es)"
  by (induction es) (simp_all add: assms)

lemma zero_acrt_ptd_simps [simp]:
  "tid (zero_acrt_ptd p) = tid p" "uid (zero_acrt_ptd p) = uid p"
  "strerror_buffer (zero_acrt_ptd p) = None" "wcserror_buffer (zero_acrt_ptd p) = None"
  "scratch (zero_acrt_ptd p) = 0"
  by (simp_all add: zero_acrt_ptd_def)

lemma uid_thread_A: "get_thread_uid thread_A = 0x100000002"
  by code_simp

lemma uid_thread_B: "get_thread_uid thread_B = 0x300000002"
  by code_simp

text \<open>
  C1. The registry is initialised by \<open>thread_A\<close>, which then fills its block; the
  thread dies without releasing it and its id returns as \<open>thread_B\<close> with another
  token. The lookup of \<open>thread_B\<close> finds the element by the id and returns the block
  as it is: the registry is unchanged, the block still holds the buffers and the scratch
  contents of \<open>thread_A\<close>, and its token is still that of \<open>thread_A\<close>.
\<close>

theorem getptd_noexit_reused_id_returns_stale_block:
  "reachable in_use \<and>
   PsGetCurrentThreadId thread_B = PsGetCurrentThreadId thread_A \<and>
   get_thread_uid thread_B \<noteq> get_thread_uid thread_A \<and>
   acrt_getptd_noexit thread_B in_use = (Some 100, in_use) \<and>
   RtlLookupElementGenericTableAvl (current_ptd thread_B) in_use =
     Some (100, \<lparr>strerror_buffer = Some 500, wcserror_buffer = Some 600, scratch = 7,
                  tid = PsGetCurrentThreadId thread_A, uid = get_thread_uid thread_A\<rparr>)"
proof -
  have "acrt_getptd_noexit thread_B in_use = (Some 100, in_use)"
    by code_simp
  moreover have "RtlLookupElementGenericTableAvl (current_ptd thread_B) in_use =
     Some (100, \<lparr>strerror_buffer = Some 500, wcserror_buffer = Some 600, scratch = 7,
                  tid = PsGetCurrentThreadId thread_A, uid = get_thread_uid thread_A\<rparr>)"
    by code_simp
  moreover have "PsGetCurrentThreadId thread_B = PsGetCurrentThreadId thread_A"
    by (simp add: PsGetCurrentThreadId_def thread_A_def thread_B_def)
  moreover have "get_thread_uid thread_B \<noteq> get_thread_uid thread_A"
    by (simp add: uid_thread_A uid_thread_B)
  ultimately show ?thesis
    using reachable_in_use by blast
qed

text \<open>
  C9. When \<open>store_and_initialize_ptd\<close> is handed a key that the table already holds
  under a token other than the caller's, it returns the block of that element after
  zeroing the base object there and nothing else: the element keeps its place, its
  \<open>tid\<close> and its \<open>uid\<close>, which therefore still differs from the caller's token; every
  element in another block is as before, and so are the pool and the heap.
\<close>

theorem store_and_initialize_ptd_zeroes_base_only:
  assumes "RtlLookupElementGenericTableAvl ptd s = Some e"
    and "get_thread_uid cur \<noteq> uid (snd e)"
  shows "fst (store_and_initialize_ptd cur ptd s) = Some (fst e) \<and>
         snd (store_and_initialize_ptd cur ptd s) =
           s\<lparr>startup_ptd_table := startup_ptd_table (snd (store_and_initialize_ptd cur ptd s))\<rparr> \<and>
         RtlLookupElementGenericTableAvl ptd (snd (store_and_initialize_ptd cur ptd s)) =
           Some (fst e, (snd e)\<lparr>strerror_buffer := None, wcserror_buffer := None, scratch := 0\<rparr>) \<and>
         map fst (startup_ptd_table (snd (store_and_initialize_ptd cur ptd s)))
           = map fst (startup_ptd_table s) \<and>
         map (\<lambda>x. (tid (snd x), uid (snd x))) (startup_ptd_table (snd (store_and_initialize_ptd cur ptd s)))
           = map (\<lambda>x. (tid (snd x), uid (snd x))) (startup_ptd_table s) \<and>
         (\<forall>x. x \<in> set (startup_ptd_table s) \<and> fst x \<noteq> fst e \<longrightarrow>
              x \<in> set (startup_ptd_table (snd (store_and_initialize_ptd cur ptd s))))"
proof -
  let ?g = "\<lambda>x :: addr \<times> 'a acrt_ptd_km. if fst x = fst e then (fst x, zero_acrt_ptd (snd x)) else x"
  have found: "avl_find ptd (startup_ptd_table s) = Some e"
    using assms(1) by (simp add: RtlLookupElementGenericTableAvl_def)
  have res: "store_and_initialize_ptd cur ptd s = (Some (fst e), RtlSecureZeroMemory (fst e) s)"
    using assms(2) by (simp add: store_hit [OF found])
  have tbl: "startup_ptd_table (RtlSecureZeroMemory (fst e) s) = map ?g (startup_ptd_table s)"
    by (simp add: RtlSecureZeroMemory_def)
  have keep: "tid (snd (?g x)) = tid (snd x)" for x
    by simp
  have "avl_find ptd (map ?g (startup_ptd_table s)) = map_option ?g (avl_find ptd (startup_ptd_table s))"
    by (rule avl_find_map) (rule keep)
  then have look: "RtlLookupElementGenericTableAvl ptd (RtlSecureZeroMemory (fst e) s) =
           Some (fst e, (snd e)\<lparr>strerror_buffer := None, wcserror_buffer := None, scratch := 0\<rparr>)"
    by (simp add: RtlLookupElementGenericTableAvl_def tbl found zero_acrt_ptd_def)
  have fsts: "map fst (map ?g es) = map fst es" for es
    by (induction es) auto
  have ids: "map (\<lambda>x. (tid (snd x), uid (snd x))) (map ?g es)
               = map (\<lambda>x. (tid (snd x), uid (snd x))) es" for es
    by (induction es) auto
  have others: "\<forall>x. x \<in> set es \<and> fst x \<noteq> fst e \<longrightarrow> x \<in> set (map ?g es)" for es
    by (induction es) auto
  have frame: "RtlSecureZeroMemory (fst e) s =
      s\<lparr>startup_ptd_table := startup_ptd_table (RtlSecureZeroMemory (fst e) s)\<rparr>"
    by (simp add: RtlSecureZeroMemory_def)
  show ?thesis
    unfolding res fst_conv snd_conv tbl
    using look frame fsts ids others unfolding tbl by blast
qed

theorem store_and_initialize_ptd_zeroes_base_only_witness:
  "fst (store_and_initialize_ptd thread_B (current_ptd thread_B) in_use) = Some 100 \<and>
   RtlLookupElementGenericTableAvl (current_ptd thread_B)
       (snd (store_and_initialize_ptd thread_B (current_ptd thread_B) in_use)) =
     Some (100, \<lparr>strerror_buffer = None, wcserror_buffer = None, scratch = 0,
                  tid = 8, uid = get_thread_uid thread_A\<rparr>) \<and>
   get_thread_uid thread_B \<noteq> get_thread_uid thread_A"
proof -
  let ?e = "(100, \<lparr>strerror_buffer = Some 500, wcserror_buffer = Some 600, scratch = 7,
                   tid = 8, uid = 0x100000002\<rparr>) :: addr \<times> nat acrt_ptd_km"
  have found: "RtlLookupElementGenericTableAvl (current_ptd thread_B) in_use = Some ?e"
    by (simp add: RtlLookupElementGenericTableAvl_def in_use_eq thread_B_def)
  have differ: "get_thread_uid thread_B \<noteq> uid (snd ?e)"
    by (simp add: uid_thread_B)
  from store_and_initialize_ptd_zeroes_base_only [OF found differ]
  show ?thesis
    by (simp add: uid_thread_A uid_thread_B)
qed

section \<open>Releasing the block of the calling thread\<close>

lemma freeptd_present_steps:
  "avl_find (current_ptd cur) (startup_ptd_table s) = Some e \<Longrightarrow>
   acrt_freeptd cur s =
     ExFreeToNPagedLookasideList (fst e)
       (free (wcserror_buffer (snd e))
          (free (strerror_buffer (snd e))
             (s\<lparr>startup_ptd_table := remove1 e (startup_ptd_table s)\<rparr>)))"
  by (simp add: acrt_freeptd_def RtlDeleteElementGenericTableAvl_def avl_unlink_remove1
        acrt_ptd_table_free_def Let_def)

lemma freeptd_lookup_None:
  assumes "ptd_inv s"
  shows "avl_find (current_ptd cur) (startup_ptd_table (acrt_freeptd cur s)) = None"
proof (cases "avl_find (current_ptd cur) (startup_ptd_table s)")
  case None
  then show ?thesis by (simp add: freeptd_absent)
next
  case (Some e)
  have "avl_find (current_ptd cur) (avl_unlink (current_ptd cur) (startup_ptd_table s)) = None"
    using assms by (simp add: ptd_inv_def avl_find_unlink_sorted)
  with Some show ?thesis
    by (simp add: freeptd_present avl_unlink_remove1)
qed

lemma getptd_noexit_after_freeptd:
  assumes "ptd_inv s" and "acrt_getptd_noexit cur (acrt_freeptd cur s) = (Some b, s2)"
  shows "avl_find (current_ptd cur) (startup_ptd_table s2) = Some (b, current_ptd cur)"
proof -
  have miss: "avl_find (current_ptd cur) (startup_ptd_table (acrt_freeptd cur s)) = None"
    using assms(1) by (rule freeptd_lookup_None)
  show ?thesis
  proof (cases cur "acrt_freeptd cur s" rule: getptd_noexit_cases)
    case (hit e)
    with miss show ?thesis by simp
  next
    case exhausted
    with assms(2) show ?thesis by simp
  next
    case (cached b' bs)
    with assms(2) miss show ?thesis
      by (auto simp: avl_find_link_same)
  next
    case (fresh b' bs)
    with assms(2) miss show ?thesis
      by (auto simp: avl_find_link_same)
  qed
qed

text \<open>
  C7. When the table holds an element for the calling thread, release unlinks it,
  frees its \<open>strerror\<close> buffer and then its \<open>wcserror\<close> buffer, and only then puts
  the block back into the pool; nothing else changes. When the table holds none,
  release changes nothing. In a reachable registry the thread has no element after its
  release, so the lookup that follows, if it obtains a block at all, obtains one whose
  contents are the zeroed descriptor of the thread, with both buffer pointers null;
  after the release of an element that block is the block just released.
\<close>

theorem freeptd_releases_block:
  "(\<forall>e. RtlLookupElementGenericTableAvl (current_ptd cur) s = Some e \<longrightarrow>
      acrt_freeptd cur s =
        ExFreeToNPagedLookasideList (fst e)
          (free (wcserror_buffer (snd e))
             (free (strerror_buffer (snd e))
                (s\<lparr>startup_ptd_table := remove1 e (startup_ptd_table s)\<rparr>))) \<and>
      acrt_freeptd cur s =
        s\<lparr>startup_ptd_table := remove1 e (startup_ptd_table s),
          crt_heap := crt_heap s - set_option (strerror_buffer (snd e))
                        - set_option (wcserror_buffer (snd e)),
          startup_ptd_pools := fst e # startup_ptd_pools s\<rparr> \<and>
      (reachable s \<longrightarrow> fst (acrt_getptd_noexit cur (acrt_freeptd cur s)) = Some (fst e))) \<and>
   (RtlLookupElementGenericTableAvl (current_ptd cur) s = None \<longrightarrow> acrt_freeptd cur s = s) \<and>
   (reachable s \<longrightarrow>
      RtlLookupElementGenericTableAvl (current_ptd cur) (acrt_freeptd cur s) = None \<and>
      (\<forall>b s2. acrt_getptd_noexit cur (acrt_freeptd cur s) = (Some b, s2) \<longrightarrow>
         RtlLookupElementGenericTableAvl (current_ptd cur) s2 =
           Some (b, \<lparr>strerror_buffer = None, wcserror_buffer = None, scratch = 0,
                      tid = PsGetCurrentThreadId cur, uid = get_thread_uid cur\<rparr>)))"
proof (intro conjI allI impI)
  fix e
  assume "RtlLookupElementGenericTableAvl (current_ptd cur) s = Some e"
  then have found: "avl_find (current_ptd cur) (startup_ptd_table s) = Some e"
    by (simp add: RtlLookupElementGenericTableAvl_def)
  show "acrt_freeptd cur s =
        ExFreeToNPagedLookasideList (fst e)
          (free (wcserror_buffer (snd e))
             (free (strerror_buffer (snd e))
                (s\<lparr>startup_ptd_table := remove1 e (startup_ptd_table s)\<rparr>)))"
    using found by (rule freeptd_present_steps)
  show eq: "acrt_freeptd cur s =
        s\<lparr>startup_ptd_table := remove1 e (startup_ptd_table s),
          crt_heap := crt_heap s - set_option (strerror_buffer (snd e))
                        - set_option (wcserror_buffer (snd e)),
          startup_ptd_pools := fst e # startup_ptd_pools s\<rparr>"
    using found by (rule freeptd_present)
  assume "reachable s"
  then have "avl_find (current_ptd cur) (startup_ptd_table (acrt_freeptd cur s)) = None"
    by (simp add: reachable_ptd_inv freeptd_lookup_None)
  moreover have "startup_ptd_pools (acrt_freeptd cur s) = fst e # startup_ptd_pools s"
    by (simp add: eq)
  ultimately show "fst (acrt_getptd_noexit cur (acrt_freeptd cur s)) = Some (fst e)"
    by (simp add: getptd_noexit_miss allocate_cases)
next
  assume "RtlLookupElementGenericTableAvl (current_ptd cur) s = None"
  then show "acrt_freeptd cur s = s"
    by (simp add: RtlLookupElementGenericTableAvl_def freeptd_absent)
next
  assume "reachable s"
  then show "RtlLookupElementGenericTableAvl (current_ptd cur) (acrt_freeptd cur s) = None"
    by (simp add: RtlLookupElementGenericTableAvl_def reachable_ptd_inv freeptd_lookup_None)
next
  fix b s2
  assume "reachable s" and "acrt_getptd_noexit cur (acrt_freeptd cur s) = (Some b, s2)"
  then have "avl_find (current_ptd cur) (startup_ptd_table s2) = Some (b, current_ptd cur)"
    by (intro getptd_noexit_after_freeptd [of s cur b s2] reachable_ptd_inv)
  then show "RtlLookupElementGenericTableAvl (current_ptd cur) s2 =
           Some (b, \<lparr>strerror_buffer = None, wcserror_buffer = None, scratch = 0,
                      tid = PsGetCurrentThreadId cur, uid = get_thread_uid cur\<rparr>)"
    by (simp add: RtlLookupElementGenericTableAvl_def current_ptd_def zero_ptd_km_def)
qed

theorem freeptd_releases_block_witness:
  "acrt_freeptd thread_A in_use = released \<and>
   acrt_freeptd thread_D in_use = in_use \<and>
   fst (acrt_getptd_noexit thread_A (acrt_freeptd thread_A in_use)) = Some 100 \<and>
   RtlLookupElementGenericTableAvl (current_ptd thread_A)
       (snd (acrt_getptd_noexit thread_A (acrt_freeptd thread_A in_use))) =
     Some (100, \<lparr>strerror_buffer = None, wcserror_buffer = None, scratch = 0,
                  tid = 8, uid = get_thread_uid thread_A\<rparr>)"
proof -
  let ?e = "(100, \<lparr>strerror_buffer = Some 500, wcserror_buffer = Some 600, scratch = 7,
                   tid = 8, uid = 0x100000002\<rparr>) :: addr \<times> nat acrt_ptd_km"
  note present = freeptd_releases_block [of thread_A in_use]
  note absent = freeptd_releases_block [of thread_D in_use]
  have found: "RtlLookupElementGenericTableAvl (current_ptd thread_A) in_use = Some ?e"
    by (simp add: RtlLookupElementGenericTableAvl_def in_use_eq thread_A_def)
  with present have "acrt_freeptd thread_A in_use =
        in_use\<lparr>startup_ptd_table := remove1 ?e (startup_ptd_table in_use),
          crt_heap := crt_heap in_use - set_option (strerror_buffer (snd ?e))
                        - set_option (wcserror_buffer (snd ?e)),
          startup_ptd_pools := fst ?e # startup_ptd_pools in_use\<rparr>"
    by blast
  then have gone: "acrt_freeptd thread_A in_use = released"
    by (simp add: in_use_eq released_eq)
  have "RtlLookupElementGenericTableAvl (current_ptd thread_D) in_use = None"
    by (simp add: RtlLookupElementGenericTableAvl_def in_use_eq thread_D_def)
  with absent have same: "acrt_freeptd thread_D in_use = in_use"
    by blast
  from present found reachable_in_use
  have again: "fst (acrt_getptd_noexit thread_A (acrt_freeptd thread_A in_use)) = Some (fst ?e)"
    by blast
  then have "acrt_getptd_noexit thread_A (acrt_freeptd thread_A in_use) =
      (Some 100, snd (acrt_getptd_noexit thread_A (acrt_freeptd thread_A in_use)))"
    by (simp add: prod_eq_iff)
  with present reachable_in_use
  have "RtlLookupElementGenericTableAvl (current_ptd thread_A)
       (snd (acrt_getptd_noexit thread_A (acrt_freeptd thread_A in_use))) =
     Some (100, \<lparr>strerror_buffer = None, wcserror_buffer = None, scratch = 0,
                  tid = PsGetCurrentThreadId thread_A, uid = get_thread_uid thread_A\<rparr>)"
    by blast
  then have fresh: "RtlLookupElementGenericTableAvl (current_ptd thread_A)
       (snd (acrt_getptd_noexit thread_A (acrt_freeptd thread_A in_use))) =
     Some (100, \<lparr>strerror_buffer = None, wcserror_buffer = None, scratch = 0,
                  tid = 8, uid = get_thread_uid thread_A\<rparr>)"
    by (simp add: PsGetCurrentThreadId_def thread_A_def)
  from gone same again fresh show ?thesis by simp
qed

text \<open>
  C10. The comparison callback looks at the thread ids alone. So when the lookup by
  the calling thread's id finds an element whose token is not the caller's, release
  deletes that element as it would the caller's own: the element is unlinked, its
  buffers are freed and its block goes back to the pool, and in a reachable registry no
  element is left under that id.
\<close>

theorem freeptd_deletes_by_id_alone:
  assumes "RtlLookupElementGenericTableAvl (current_ptd cur) s = Some e"
    and "uid (snd e) \<noteq> get_thread_uid cur"
  shows "(\<forall>(p :: 's acrt_ptd_km) q u v.
            acrt_ptd_table_compare (p\<lparr>uid := u\<rparr>) (q\<lparr>uid := v\<rparr>) = acrt_ptd_table_compare p q) \<and>
         tid (snd e) = PsGetCurrentThreadId cur \<and>
         fst (RtlDeleteElementGenericTableAvl (current_ptd cur) (s :: ('s::zero) ptd_state)) \<and>
         acrt_freeptd cur s =
           s\<lparr>startup_ptd_table := remove1 e (startup_ptd_table s),
             crt_heap := crt_heap s - set_option (strerror_buffer (snd e))
                           - set_option (wcserror_buffer (snd e)),
             startup_ptd_pools := fst e # startup_ptd_pools s\<rparr> \<and>
         Suc (length (startup_ptd_table (acrt_freeptd cur s))) = length (startup_ptd_table s) \<and>
         (reachable s \<longrightarrow>
            RtlLookupElementGenericTableAvl (current_ptd cur) (acrt_freeptd cur s) = None)"
proof -
  have found: "avl_find (current_ptd cur) (startup_ptd_table s) = Some e"
    using assms(1) by (simp add: RtlLookupElementGenericTableAvl_def)
  have "\<forall>(p :: 's acrt_ptd_km) q u v.
            acrt_ptd_table_compare (p\<lparr>uid := u\<rparr>) (q\<lparr>uid := v\<rparr>) = acrt_ptd_table_compare p q"
    by (simp add: acrt_ptd_table_compare_def)
  moreover have "tid (snd e) = PsGetCurrentThreadId cur"
    using avl_find_SomeD [OF found] by (simp add: PsGetCurrentThreadId_def)
  moreover have "fst (RtlDeleteElementGenericTableAvl (current_ptd cur) s)"
    using found by (simp add: RtlDeleteElementGenericTableAvl_def)
  moreover note freeptd_present [OF found]
  moreover have "Suc (length (startup_ptd_table (acrt_freeptd cur s))) = length (startup_ptd_table s)"
    using length_avl_unlink [OF found]
    by (simp add: freeptd_present [OF found] avl_unlink_remove1 [OF found])
  moreover have "reachable s \<longrightarrow>
            RtlLookupElementGenericTableAvl (current_ptd cur) (acrt_freeptd cur s) = None"
    by (simp add: RtlLookupElementGenericTableAvl_def reachable_ptd_inv freeptd_lookup_None)
  ultimately show ?thesis by blast
qed

theorem freeptd_deletes_by_id_alone_witness:
  "get_thread_uid thread_B \<noteq> get_thread_uid thread_A \<and>
   RtlLookupElementGenericTableAvl (current_ptd thread_B) in_use =
     Some (100, \<lparr>strerror_buffer = Some 500, wcserror_buffer = Some 600, scratch = 7,
                  tid = 8, uid = get_thread_uid thread_A\<rparr>) \<and>
   acrt_freeptd thread_B in_use = released \<and>
   RtlLookupElementGenericTableAvl (current_ptd thread_B) (acrt_freeptd thread_B in_use) = None"
proof -
  let ?e = "(100, \<lparr>strerror_buffer = Some 500, wcserror_buffer = Some 600, scratch = 7,
                   tid = 8, uid = 0x100000002\<rparr>) :: addr \<times> nat acrt_ptd_km"
  have found: "RtlLookupElementGenericTableAvl (current_ptd thread_B) in_use = Some ?e"
    by (simp add: RtlLookupElementGenericTableAvl_def in_use_eq thread_B_def)
  have stale: "uid (snd ?e) \<noteq> get_thread_uid thread_B"
    by (simp add: uid_thread_B)
  note del = freeptd_deletes_by_id_alone [OF found stale]
  from del have "acrt_freeptd thread_B in_use =
           in_use\<lparr>startup_ptd_table := remove1 ?e (startup_ptd_table in_use),
             crt_heap := crt_heap in_use - set_option (strerror_buffer (snd ?e))
                           - set_option (wcserror_buffer (snd ?e)),
             startup_ptd_pools := fst ?e # startup_ptd_pools in_use\<rparr>"
    by blast
  then have gone: "acrt_freeptd thread_B in_use = released"
    by (simp add: in_use_eq released_eq)
  from del reachable_in_use
  have "RtlLookupElementGenericTableAvl (current_ptd thread_B) (acrt_freeptd thread_B in_use) = None"
    by blast
  with found gone show ?thesis
    by (simp add: uid_thread_A uid_thread_B)
qed

section \<open>Repeated lookups\<close>

lemma owner_write_find:
  "map_option fst (avl_find b (startup_ptd_table (owner_write p v s)))
     = map_option fst (avl_find b (startup_ptd_table s))"
proof -
  let ?g = "\<lambda>e :: addr \<times> 'a acrt_ptd_km. if fst e = p then (fst e, store_acrt_ptd v (snd e)) else e"
  have "tid (snd (?g x)) = tid (snd x)" for x
    by (simp add: store_acrt_ptd_def)
  then have "avl_find b (map ?g (startup_ptd_table s))
               = map_option ?g (avl_find b (startup_ptd_table s))"
    by (rule avl_find_map)
  moreover have "map_option fst (map_option ?g r) = map_option fst r" for r
    by (cases r) auto
  ultimately show ?thesis
    by (simp add: owner_write_def)
qed

lemma owner_write_pools [simp]:
  "startup_ptd_pools (owner_write p v s) = startup_ptd_pools s"
  "nonpaged_pool (owner_write p v s) = nonpaged_pool s"
  by (simp_all add: owner_write_def)

lemma getptd_noexit_keeps_block:
  assumes "map_option fst (avl_find b (startup_ptd_table s)) = Some a"
  shows "map_option fst (avl_find b (startup_ptd_table (snd (acrt_getptd_noexit cur s)))) = Some a"
proof (cases cur s rule: getptd_noexit_cases)
  case (hit e)
  with assms show ?thesis by simp
next
  case exhausted
  with assms show ?thesis by simp
next
  case (cached c cs)
  from assms cached(1) have "tid b \<noteq> tid (current_ptd cur :: 'a acrt_ptd_km)"
    using avl_find_cong_tid [of b "current_ptd cur" "startup_ptd_table s"] by auto
  with assms cached show ?thesis
    by (simp add: avl_find_link_other)
next
  case (fresh c cs)
  from assms fresh(1) have "tid b \<noteq> tid (current_ptd cur :: 'a acrt_ptd_km)"
    using avl_find_cong_tid [of b "current_ptd cur" "startup_ptd_table s"] by auto
  with assms fresh show ?thesis
    by (simp add: avl_find_link_other)
qed

lemma run_calls_keep_block:
  "map_option fst (avl_find b (startup_ptd_table s)) = Some a \<Longrightarrow>
   map_option fst (avl_find b (startup_ptd_table (run_calls cs s))) = Some a"
proof (induction cs arbitrary: s)
  case Nil
  then show ?case by simp
next
  case (Cons c cs)
  have "map_option fst (avl_find b (startup_ptd_table (run_call c s))) = Some a"
    using Cons.prems by (cases c) (simp_all add: getptd_noexit_keeps_block owner_write_find)
  then show ?case by (simp add: Cons.IH)
qed

lemma run_calls_keep_exhausted:
  "avl_find b (startup_ptd_table s) = None \<Longrightarrow> startup_ptd_pools s = [] \<Longrightarrow>
   nonpaged_pool s = [] \<Longrightarrow>
   avl_find b (startup_ptd_table (run_calls cs s)) = None \<and>
   startup_ptd_pools (run_calls cs s) = [] \<and> nonpaged_pool (run_calls cs s) = []"
proof (induction cs arbitrary: s)
  case Nil
  then show ?case by simp
next
  case (Cons c cs)
  have "avl_find b (startup_ptd_table (run_call c s)) = None \<and>
        startup_ptd_pools (run_call c s) = [] \<and> nonpaged_pool (run_call c s) = []"
  proof (cases c)
    case (Getptd_noexit cur)
    show ?thesis
      using Cons.prems unfolding Getptd_noexit
      by (cases cur s rule: getptd_noexit_cases) simp_all
  next
    case (Owner_write p v)
    have "map_option fst (avl_find b (startup_ptd_table (owner_write p v s))) = None"
      using Cons.prems(1) by (simp add: owner_write_find)
    with Cons.prems show ?thesis
      unfolding Owner_write by simp
  qed
  then show ?case
    using Cons.IH [of "run_call c s"] by simp
qed

text \<open>
  C6. Take any state and any list of calls that release nothing: lookups by any thread
  and stores by the holders of blocks. The lookup of a thread after these calls returns
  what its lookup before them returned: the same block, or no block when the pool was
  exhausted the first time.
\<close>

theorem getptd_noexit_same_block:
  "fst (acrt_getptd_noexit cur (run_calls cs (snd (acrt_getptd_noexit cur s))))
     = fst (acrt_getptd_noexit cur s)"
proof -
  let ?b = "current_ptd cur :: 'a acrt_ptd_km"
  have holds: "fst (acrt_getptd_noexit cur (run_calls cs s1)) = Some a"
    if "map_option fst (avl_find ?b (startup_ptd_table s1)) = Some a" for s1 a
  proof -
    from that have "map_option fst (avl_find ?b (startup_ptd_table (run_calls cs s1))) = Some a"
      by (rule run_calls_keep_block)
    then obtain e where "avl_find ?b (startup_ptd_table (run_calls cs s1)) = Some e" and "fst e = a"
      by auto
    then show ?thesis
      by (simp add: getptd_noexit_hit)
  qed
  show ?thesis
  proof (cases cur s rule: getptd_noexit_cases)
    case (hit e)
    then show ?thesis by (simp add: holds)
  next
    case exhausted
    then have "avl_find ?b (startup_ptd_table (run_calls cs s)) = None \<and>
        startup_ptd_pools (run_calls cs s) = [] \<and> nonpaged_pool (run_calls cs s) = []"
      by (intro run_calls_keep_exhausted)
    then have "fst (acrt_getptd_noexit cur (run_calls cs s)) = None"
      by (simp add: getptd_noexit_miss allocate_cases)
    with exhausted show ?thesis by simp
  next
    case (cached b bs)
    then show ?thesis by (simp add: holds avl_find_link_same)
  next
    case (fresh b bs)
    then show ?thesis by (simp add: holds avl_find_link_same)
  qed
qed

theorem getptd_noexit_same_block_witness:
  "fst (acrt_getptd_noexit thread_A released) = Some 100 \<and>
   fst (acrt_getptd_noexit thread_A
          (run_calls [Getptd_noexit thread_C, Owner_write 100 used_ptd, Getptd_noexit thread_B,
                      Getptd_noexit thread_A]
             (snd (acrt_getptd_noexit thread_A released)))) = Some 100"
proof -
  have first: "fst (acrt_getptd_noexit thread_A released) = Some 100"
    by code_simp
  with getptd_noexit_same_block [of thread_A
      "[Getptd_noexit thread_C, Owner_write 100 used_ptd, Getptd_noexit thread_B,
        Getptd_noexit thread_A]" released]
  show ?thesis by simp
qed

section \<open>One block per thread id\<close>

lemma filter_distinct_key_le1:
  "distinct (map f xs) \<Longrightarrow> length (filter (\<lambda>x. f x = k \<and> P x) xs) \<le> 1"
proof (induction xs)
  case Nil
  then show ?case by simp
next
  case (Cons x xs)
  show ?case
  proof (cases "f x = k")
    case True
    with Cons.prems have "filter (\<lambda>x. f x = k \<and> P x) xs = []"
      by (auto simp: filter_empty_conv image_iff)
    then show ?thesis by simp
  next
    case False
    with Cons show ?thesis by simp
  qed
qed

lemma ptd_inv_distinct_tid:
  "ptd_inv s \<Longrightarrow> distinct (map (\<lambda>e. tid (snd e)) (startup_ptd_table s))"
  by (simp add: ptd_inv_def strict_sorted_iff)

lemma getptd_noexit_all_distinct:
  assumes "ptd_inv s"
    and "distinct (map PsGetCurrentThreadId curs)"
    and "\<forall>cur\<in>set curs. avl_find (current_ptd cur) (startup_ptd_table s) = None"
    and "length curs \<le> length (startup_ptd_pools s) + length (nonpaged_pool s)"
  shows "length (fst (getptd_noexit_all curs s)) = length curs \<and>
         set (fst (getptd_noexit_all curs s)) \<subseteq> Some ` (set (startup_ptd_pools s) \<union> set (nonpaged_pool s)) \<and>
         distinct (fst (getptd_noexit_all curs s)) \<and>
         length (startup_ptd_table (snd (getptd_noexit_all curs s)))
           = length (startup_ptd_table s) + length curs"
  using assms
proof (induction curs arbitrary: s)
  case Nil
  then show ?case by simp
next
  case (Cons cur curs)
  let ?b = "current_ptd cur :: 'a acrt_ptd_km"
  have miss: "avl_find ?b (startup_ptd_table s) = None"
    using Cons.prems(3) by simp
  have room: "startup_ptd_pools s \<noteq> [] \<or> nonpaged_pool s \<noteq> []"
    using Cons.prems(4) by auto
  have dist: "distinct (startup_ptd_pools s @ nonpaged_pool s)"
    using Cons.prems(1) by (simp add: ptd_inv_def)
  obtain a s1 where step: "acrt_getptd_noexit cur s = (Some a, s1)"
    and table1: "startup_ptd_table s1 = avl_link (a, ?b) (startup_ptd_table s)"
    and a_free: "a \<in> set (startup_ptd_pools s) \<union> set (nonpaged_pool s)"
    and rest: "set (startup_ptd_pools s1) \<union> set (nonpaged_pool s1)
                 \<subseteq> set (startup_ptd_pools s) \<union> set (nonpaged_pool s) - {a}"
    and count: "Suc (length (startup_ptd_pools s1) + length (nonpaged_pool s1))
                  = length (startup_ptd_pools s) + length (nonpaged_pool s)"
  proof (cases cur s rule: getptd_noexit_cases)
    case (hit e)
    with miss show ?thesis by simp
  next
    case exhausted
    with room show ?thesis by simp
  next
    case (cached b bs)
    with dist that [of b "s\<lparr>startup_ptd_pools := bs,
        startup_ptd_table := avl_link (b, ?b) (startup_ptd_table s)\<rparr>"]
    show ?thesis by auto
  next
    case (fresh b bs)
    with dist that [of b "s\<lparr>nonpaged_pool := bs,
        startup_ptd_table := avl_link (b, ?b) (startup_ptd_table s)\<rparr>"]
    show ?thesis by auto
  qed
  have inv1: "ptd_inv s1"
    using ptd_inv_getptd_noexit [OF Cons.prems(1), of cur] step by simp
  have dist1: "distinct (map PsGetCurrentThreadId curs)"
    using Cons.prems(2) by simp
  have miss1: "\<forall>c\<in>set curs. avl_find (current_ptd c) (startup_ptd_table s1) = None"
  proof
    fix c assume c: "c \<in> set curs"
    with Cons.prems(2) have "PsGetCurrentThreadId c \<noteq> PsGetCurrentThreadId cur"
      by (auto simp: image_iff)
    then have "tid (current_ptd c :: 'a acrt_ptd_km) \<noteq> tid (snd (a, ?b))"
      by (simp add: PsGetCurrentThreadId_def)
    then have "avl_find (current_ptd c) (avl_link (a, ?b) (startup_ptd_table s))
                 = avl_find (current_ptd c) (startup_ptd_table s)"
      by (rule avl_find_link_other)
    with Cons.prems(3) c show "avl_find (current_ptd c) (startup_ptd_table s1) = None"
      by (simp add: table1)
  qed
  have room1: "length curs \<le> length (startup_ptd_pools s1) + length (nonpaged_pool s1)"
    using Cons.prems(4) count by simp
  note IH = Cons.IH [OF inv1 dist1 miss1 room1]
  have all: "getptd_noexit_all (cur # curs) s
               = (Some a # fst (getptd_noexit_all curs s1), snd (getptd_noexit_all curs s1))"
    by (simp add: step split: prod.splits)
  have "Some ` (set (startup_ptd_pools s1) \<union> set (nonpaged_pool s1))
          \<subseteq> Some ` (set (startup_ptd_pools s) \<union> set (nonpaged_pool s) - {a})"
    using rest by (rule image_mono)
  with IH have sub: "set (fst (getptd_noexit_all curs s1))
          \<subseteq> Some ` (set (startup_ptd_pools s) \<union> set (nonpaged_pool s) - {a})"
    by blast
  then have "Some a \<notin> set (fst (getptd_noexit_all curs s1))"
    by blast
  moreover from sub have "set (fst (getptd_noexit_all curs s1))
                   \<subseteq> Some ` (set (startup_ptd_pools s) \<union> set (nonpaged_pool s))"
    by blast
  ultimately show ?case
    unfolding all using IH a_free by (simp add: table1)
qed

text \<open>
  C5, as the claim states it, fails: \<open>thread_A\<close> and \<open>thread_B\<close> are two identities,
  different in their tokens, yet on the empty registry \<open>released\<close> both lookups return
  block 100 and the table ends with one element, not two. And on the registry
  \<open>exhausted\<close> the lookup of \<open>thread_D\<close>, whose id no element carries, receives no
  block at all.
\<close>

theorem distinct_identities_share_block:
  "(PsGetCurrentThreadId thread_A, get_thread_uid thread_A)
     \<noteq> (PsGetCurrentThreadId thread_B, get_thread_uid thread_B) \<and>
   reachable released \<and>
   startup_ptd_table released = [] \<and>
   fst (getptd_noexit_all [thread_A, thread_B] released) = [Some 100, Some 100] \<and>
   length (startup_ptd_table (snd (getptd_noexit_all [thread_A, thread_B] released))) = 1 \<and>
   reachable exhausted \<and>
   fst (getptd_noexit_all [thread_D] exhausted) = [None]"
proof -
  have "fst (getptd_noexit_all [thread_A, thread_B] released) = [Some 100, Some 100]"
    by code_simp
  moreover have "fst (getptd_noexit_all [thread_D] exhausted) = [None]"
    by code_simp
  moreover have "length (startup_ptd_table (snd (getptd_noexit_all [thread_A, thread_B] released))) = 1"
    by code_simp
  ultimately show ?thesis
    using reachable_released reachable_exhausted
    by (simp add: uid_thread_A uid_thread_B released_eq)
qed

text \<open>
  C5, amended. In every reachable state the elements of the table have pairwise
  different thread ids and pairwise different blocks, so that at most one element
  carries a given id and token. Lookups by threads with pairwise different ids, none of
  which has an element yet, made while the pool and the system together still hold a
  block for each of them, all obtain a block, the blocks are pairwise different, and the
  table grows by one element per thread.
\<close>

theorem one_block_per_thread_id:
  assumes "reachable s"
  shows "(\<forall>i u. length (filter (\<lambda>e. tid (snd e) = i \<and> uid (snd e) = u) (startup_ptd_table s)) \<le> 1) \<and>
         distinct (map (\<lambda>e. tid (snd e)) (startup_ptd_table s)) \<and>
         distinct (map fst (startup_ptd_table s)) \<and>
         (\<forall>curs.
            distinct (map PsGetCurrentThreadId curs) \<and>
            (\<forall>cur\<in>set curs. RtlLookupElementGenericTableAvl (current_ptd cur) s = None) \<and>
            length curs \<le> length (startup_ptd_pools s) + length (nonpaged_pool s) \<longrightarrow>
              length (fst (getptd_noexit_all curs s)) = length curs \<and>
              None \<notin> set (fst (getptd_noexit_all curs s)) \<and>
              distinct (fst (getptd_noexit_all curs s)) \<and>
              length (startup_ptd_table (snd (getptd_noexit_all curs s)))
                = length (startup_ptd_table s) + length curs)"
proof -
  from assms have inv: "ptd_inv s"
    by (rule reachable_ptd_inv)
  then have tids: "distinct (map (\<lambda>e. tid (snd e)) (startup_ptd_table s))"
    by (rule ptd_inv_distinct_tid)
  then have "\<forall>i u. length (filter (\<lambda>e. tid (snd e) = i \<and> uid (snd e) = u) (startup_ptd_table s)) \<le> 1"
    by (intro allI filter_distinct_key_le1 [where f = "\<lambda>e. tid (snd e)"])
  moreover have "distinct (map fst (startup_ptd_table s))"
    using inv by (simp add: ptd_inv_def)
  moreover have "length (fst (getptd_noexit_all curs s)) = length curs \<and>
              None \<notin> set (fst (getptd_noexit_all curs s)) \<and>
              distinct (fst (getptd_noexit_all curs s)) \<and>
              length (startup_ptd_table (snd (getptd_noexit_all curs s)))
                = length (startup_ptd_table s) + length curs"
    if "distinct (map PsGetCurrentThreadId curs)"
      and "\<forall>cur\<in>set curs. RtlLookupElementGenericTableAvl (current_ptd cur) s = None"
      and "length curs \<le> length (startup_ptd_pools s) + length (nonpaged_pool s)" for curs
  proof -
    from that(2) have "\<forall>cur\<in>set curs. avl_find (current_ptd cur) (startup_ptd_table s) = None"
      by (simp add: RtlLookupElementGenericTableAvl_def)
    from getptd_noexit_all_distinct [OF inv that(1) this that(3)]
    show ?thesis by blast
  qed
  ultimately show ?thesis
    using tids by blast
qed

theorem one_block_per_thread_id_witness:
  "reachable released \<and>
   distinct (map PsGetCurrentThreadId [thread_A, thread_C]) \<and>
   None \<notin> set (fst (getptd_noexit_all [thread_A, thread_C] released)) \<and>
   distinct (fst (getptd_noexit_all [thread_A, thread_C] released)) \<and>
   length (startup_ptd_table (snd (getptd_noexit_all [thread_A, thread_C] released))) = 2 \<and>
   distinct (map (\<lambda>e. tid (snd e)) (startup_ptd_table exhausted))"
proof -
  note fresh = one_block_per_thread_id [OF reachable_released]
  note full = one_block_per_thread_id [OF reachable_exhausted]
  have ids: "distinct (map PsGetCurrentThreadId [thread_A, thread_C])"
    by (simp add: PsGetCurrentThreadId_def thread_A_def thread_C_def)
  have none: "\<forall>cur\<in>set [thread_A, thread_C].
                RtlLookupElementGenericTableAvl (current_ptd cur) released = None"
    by (simp add: RtlLookupElementGenericTableAvl_def released_eq)
  have room: "length [thread_A, thread_C]
                \<le> length (startup_ptd_pools released) + length (nonpaged_pool released)"
    by (simp add: released_eq)
  from fresh ids none room
  have "None \<notin> set (fst (getptd_noexit_all [thread_A, thread_C] released)) \<and>
        distinct (fst (getptd_noexit_all [thread_A, thread_C] released)) \<and>
        length (startup_ptd_table (snd (getptd_noexit_all [thread_A, thread_C] released)))
          = length (startup_ptd_table released) + length [thread_A, thread_C]"
    by blast
  then have "None \<notin> set (fst (getptd_noexit_all [thread_A, thread_C] released)) \<and>
        distinct (fst (getptd_noexit_all [thread_A, thread_C] released)) \<and>
        length (startup_ptd_table (snd (getptd_noexit_all [thread_A, thread_C] released))) = 2"
    by (simp add: released_eq)
  moreover from full have "distinct (map (\<lambda>e. tid (snd e)) (startup_ptd_table exhausted))"
    by blast
  ultimately show ?thesis
    using reachable_released ids by blast
qed

end
